theory Spec2Isabelle
  imports Main
begin

section \<open>Strings\<close>

text \<open>
  Python strings are modelled as \<open>string\<close>, one \<open>char\<close> per code point below 256.
  \<open>str.lower()\<close> on such a string maps \<open>A..Z\<close> to \<open>a..z\<close> and the upper-case letters
  of the Latin-1 block (192..222 except the multiplication sign 215) to their lower-case
  forms 32 places further on; every other code point stays.
\<close>

definition lower_char :: "char \<Rightarrow> char" where
  "lower_char c =
     (let n = (of_char c :: nat)
      in if (65 \<le> n \<and> n \<le> 90) \<or> (192 \<le> n \<and> n \<le> 222 \<and> n \<noteq> 215)
         then char_of (n + 32) else c)"

definition lower :: "string \<Rightarrow> string" where
  "lower s = map lower_char s"

text \<open>\<open>starts_with k s\<close>: \<open>s.startswith(k)\<close>; \<open>str_in k s\<close>: Python's \<open>k in s\<close>.\<close>

fun starts_with :: "string \<Rightarrow> string \<Rightarrow> bool" where
  "starts_with [] s = True"
| "starts_with (k # ks) [] = False"
| "starts_with (k # ks) (c # cs) = (k = c \<and> starts_with ks cs)"

fun str_in :: "string \<Rightarrow> string \<Rightarrow> bool" where
  "str_in k [] = (k = [])"
| "str_in k (c # cs) = (starts_with k (c # cs) \<or> str_in k cs)"

section \<open>Urgency check (\<open>RAGService.get_urgent_symptoms_check\<close>)\<close>

datatype urgency = High | Medium | Low

record urgency_check =
  urgency_level :: urgency
  matched_keywords :: "string list"
  recommendation :: string

definition urgent_keywords :: "string list" where
  "urgent_keywords =
     [''severe chest pain'', ''heart attack'', ''stroke'', ''unconscious'',
      ''severe bleeding'', ''broken bone'', ''high fever'', ''difficulty breathing'',
      ''poisoning'', ''severe injury'', ''emergency'', ''urgent'']"

definition medium_keywords :: "string list" where
  "medium_keywords =
     [''chest pain'', ''severe headache'', ''high blood pressure'',
      ''persistent fever'', ''severe pain'', ''kidney stone'']"

definition get_urgency_recommendation :: "urgency \<Rightarrow> string" where
  "get_urgency_recommendation u =
     (case u of
        High \<Rightarrow> ''Please seek immediate emergency care or call emergency services.''
      | Medium \<Rightarrow> ''You should see a doctor as soon as possible, preferably today.''
      | Low \<Rightarrow> ''You can schedule a regular appointment with the appropriate specialist.'')"

text \<open>
  One pass of \<open>for keyword in kws: if keyword in symptoms_lower: ...\<close>: a hit sets the
  level to \<open>lvl\<close> and appends the keyword to the matched list.
\<close>

definition scan_keywords ::
  "urgency \<Rightarrow> string list \<Rightarrow> string \<Rightarrow> urgency \<times> string list \<Rightarrow> urgency \<times> string list" where
  "scan_keywords lvl kws symptoms_lower acc =
     fold (\<lambda>keyword (level, matched).
             if str_in keyword symptoms_lower then (lvl, matched @ [keyword])
             else (level, matched)) kws acc"

definition get_urgent_symptoms_check :: "string \<Rightarrow> urgency_check" where
  "get_urgent_symptoms_check symptoms =
     (let symptoms_lower = lower symptoms;
          (level1, matched1) = scan_keywords High urgent_keywords symptoms_lower (Low, []);
          (level2, matched2) =
             (if level1 \<noteq> High
              then scan_keywords Medium medium_keywords symptoms_lower (level1, matched1)
              else (level1, matched1))
      in \<lparr>urgency_level = level2, matched_keywords = matched2,
          recommendation = get_urgency_recommendation level2\<rparr>)"

section \<open>Dates and times\<close>

text \<open>
  A \<open>datetime.date\<close> is represented by its proleptic Gregorian ordinal
  (\<open>date.toordinal()\<close>, day 1 is Monday 0001-01-01), so \<open>d + timedelta(days=n)\<close> is
  \<open>d + n\<close>; the upper bound \<open>date.max\<close> of the library is not modelled. A
  \<open>datetime.time\<close> is the number of seconds since midnight (sub-second parts are not
  modelled), and a \<open>datetime\<close> is the pair of both. The text forms the source passes
  around (\<open>isoformat()\<close>, \<open>strftime('%H:%M')\<close>) are represented by the value that
  parsing them gives back: \<open>fromisoformat\<close> inverts \<open>isoformat\<close>, and
  \<open>strptime(_, '%H:%M')\<close> of \<open>strftime('%H:%M')\<close> is the time with its seconds dropped.
\<close>

type_synonym date = int
type_synonym time = nat

definition weekday :: "date \<Rightarrow> int" where
  \<comment> \<open>\<open>date.weekday()\<close>: Monday is 0, Sunday is 6.\<close>
  "weekday d = (d + 6) mod 7"

definition hhmm :: "time \<Rightarrow> time" where
  \<comment> \<open>\<open>strptime(t.strftime('%H:%M'), '%H:%M').time()\<close>\<close>
  "hhmm t = (t div 60) * 60"

definition total_seconds :: "date \<times> time \<Rightarrow> date \<times> time \<Rightarrow> int" where
  \<comment> \<open>\<open>(a - b).total_seconds()\<close> of two datetimes\<close>
  "total_seconds a b = (fst a - fst b) * 86400 + (int (snd a) - int (snd b))"

section \<open>Tables (\<open>models/database.py\<close>)\<close>

datatype appointment_status = Scheduled | Completed | Cancelled | No_show

datatype booking_channel = Chat | Voice | Web

record doctor =
  d_id :: int
  d_name :: string
  d_specialty :: string

record doctor_schedule =
  sch_doctor_id :: int
  sch_day_of_week :: int
  sch_start_time :: time
  sch_end_time :: time
  sch_is_active :: bool

record patient =
  p_id :: int
  p_name :: string
  p_phone :: string

record appointment =
  a_id :: int
  a_patient_id :: int
  a_doctor_id :: int
  a_date :: date
  a_time :: time
  a_status :: appointment_status
  a_symptoms :: string
  a_notes :: string
  a_serial_number :: string
  a_booking_channel :: booking_channel

record specialty =
  sp_id :: int
  sp_name :: string
  sp_description :: string
  sp_pre_visit_instructions :: string

record symptom_mapping =
  sm_symptom_keywords :: "string list"
  sm_specialty_id :: int
  sm_priority :: int

record time_slot =
  ts_doctor_id :: int
  ts_slot_date :: date
  ts_slot_time :: time
  ts_is_blocked :: bool

text \<open>
  The database: each table is the list of its rows in the order an unordered query
  returns them, so \<open>.first()\<close> is \<open>find\<close> and \<open>.all()\<close> is \<open>filter\<close>.
  \<open>sm_symptom_keywords\<close> holds the decoded JSON array of the column.
\<close>

record store =
  doctors :: "doctor list"
  schedules :: "doctor_schedule list"
  patients :: "patient list"
  appointments :: "appointment list"
  specialties :: "specialty list"
  symptom_mappings :: "symptom_mapping list"
  time_slots :: "time_slot list"

definition get_doctor :: "store \<Rightarrow> int \<Rightarrow> doctor option" where
  "get_doctor st doctor_id = find (\<lambda>d. d_id d = doctor_id) (doctors st)"

definition doctor_schedules :: "store \<Rightarrow> int \<Rightarrow> doctor_schedule list" where
  \<comment> \<open>the relationship \<open>Doctor.schedules\<close>\<close>
  "doctor_schedules st doctor_id = filter (\<lambda>s. sch_doctor_id s = doctor_id) (schedules st)"

definition existing_appointment :: "store \<Rightarrow> int \<Rightarrow> date \<Rightarrow> time \<Rightarrow> appointment option" where
  "existing_appointment st doctor_id slot_date slot_time =
     find (\<lambda>a. a_doctor_id a = doctor_id \<and> a_date a = slot_date \<and> a_time a = slot_time
               \<and> a_status a = Scheduled) (appointments st)"

definition blocked_slot :: "store \<Rightarrow> int \<Rightarrow> date \<Rightarrow> time \<Rightarrow> time_slot option" where
  "blocked_slot st doctor_id slot_date slot_time =
     find (\<lambda>b. ts_doctor_id b = doctor_id \<and> ts_slot_date b = slot_date \<and> ts_slot_time b = slot_time
               \<and> ts_is_blocked b) (time_slots st)"

section \<open>Availability (\<open>RAGService.get_doctor_availability\<close>)\<close>

record slot =
  slot_date :: date
  slot_time :: time
  slot_datetime :: "date \<times> time"
  slot_doctor_id :: int
  slot_doctor_name :: string
  slot_specialty :: string

definition make_slot :: "doctor \<Rightarrow> int \<Rightarrow> date \<Rightarrow> time \<Rightarrow> slot" where
  "make_slot doctor doctor_id current_date current_time =
     \<lparr>slot_date = current_date, slot_time = hhmm current_time,
      slot_datetime = (current_date, current_time), slot_doctor_id = doctor_id,
      slot_doctor_name = d_name doctor, slot_specialty = d_specialty doctor\<rparr>"

text \<open>
  The inner loop \<open>while current_time < end_time\<close>. Both are datetimes on \<open>current_date\<close>;
  the loop stops before \<open>current_time\<close> leaves that day, so the time of day suffices.
\<close>

function time_loop ::
  "store \<Rightarrow> doctor \<Rightarrow> int \<Rightarrow> date \<Rightarrow> time \<Rightarrow> time \<Rightarrow> slot list \<Rightarrow> slot list" where
  "time_loop st doctor doctor_id current_date current_time end_time available_slots =
     (if current_time < end_time
      then time_loop st doctor doctor_id current_date (current_time + 1800) end_time
             (if existing_appointment st doctor_id current_date current_time = None
                 \<and> blocked_slot st doctor_id current_date current_time = None
              then available_slots @ [make_slot doctor doctor_id current_date current_time]
              else available_slots)
      else available_slots)"
  by pat_completeness auto
termination
  by (relation "measure (\<lambda>(st, doctor, doctor_id, current_date, current_time, end_time, acc).
                           end_time - current_time)") auto

declare time_loop.simps [simp del]

definition day_schedule :: "doctor_schedule list \<Rightarrow> date \<Rightarrow> doctor_schedule option" where
  \<comment> \<open>the first active schedule of the day, weekday converted to Sunday = 0\<close>
  "day_schedule scheds current_date =
     (let day_of_week = (weekday current_date + 1) mod 7
      in find (\<lambda>schedule. sch_day_of_week schedule = day_of_week \<and> sch_is_active schedule) scheds)"

function date_loop ::
  "store \<Rightarrow> doctor \<Rightarrow> int \<Rightarrow> doctor_schedule list \<Rightarrow> date \<Rightarrow> date \<Rightarrow> slot list \<Rightarrow> slot list" where
  "date_loop st doctor doctor_id scheds current_date end_date available_slots =
     (if current_date \<le> end_date
      then date_loop st doctor doctor_id scheds (current_date + 1) end_date
             (case day_schedule scheds current_date of
                None \<Rightarrow> available_slots
              | Some sched \<Rightarrow>
                  time_loop st doctor doctor_id current_date
                    (sch_start_time sched) (sch_end_time sched) available_slots)
      else available_slots)"
  by pat_completeness auto
termination
  by (relation "measure (\<lambda>(st, doctor, doctor_id, scheds, current_date, end_date, acc).
                           nat (end_date + 1 - current_date))") auto

declare date_loop.simps [simp del]

definition get_doctor_availability :: "store \<Rightarrow> int \<Rightarrow> date \<Rightarrow> int \<Rightarrow> slot list" where
  "get_doctor_availability st doctor_id start_date days =
     (let end_date = start_date + days
      in case get_doctor st doctor_id of
           None \<Rightarrow> []
         | Some doctor \<Rightarrow>
             date_loop st doctor doctor_id (doctor_schedules st doctor_id) start_date end_date [])"

section \<open>Symptom matching (\<open>RAGService.search_doctors_by_symptoms\<close>)\<close>

text \<open>
  A recommended doctor: the dictionary of \<open>_doctor_to_dict\<close> with the keys
  \<open>match_score\<close> and \<open>specialty_info\<close> added.
\<close>

record doctor_info =
  di_id :: int
  di_name :: string
  di_specialty :: string
  di_match_score :: int
  di_specialty_info :: specialty

definition mapping_score :: "string \<Rightarrow> symptom_mapping \<Rightarrow> int" where
  \<comment> \<open>\<open>for keyword in keywords: if keyword.lower() in symptoms_lower: score += mapping.priority\<close>\<close>
  "mapping_score symptoms_lower mapping =
     fold (\<lambda>keyword score.
             if str_in (lower keyword) symptoms_lower then score + sm_priority mapping else score)
          (sm_symptom_keywords mapping) 0"

text \<open>
  \<open>specialty_scores\<close> is a dictionary whose order of keys matters later (\<open>sorted\<close> is
  stable), so it is an association list in insertion order. \<open>add_score\<close> is
  \<open>if k not in d: d[k] = 0\<close> followed by \<open>d[k] += v\<close>.
\<close>

fun add_score :: "(int \<times> int) list \<Rightarrow> int \<Rightarrow> int \<Rightarrow> (int \<times> int) list" where
  "add_score [] k v = [(k, v)]"
| "add_score ((k', v') # rest) k v =
     (if k' = k then (k', v' + v) # rest else (k', v') # add_score rest k v)"

definition specialty_scores :: "symptom_mapping list \<Rightarrow> string \<Rightarrow> (int \<times> int) list" where
  "specialty_scores mappings symptoms_lower =
     fold (\<lambda>mapping scores.
             let score = mapping_score symptoms_lower mapping
             in if score > 0 then add_score scores (sm_specialty_id mapping) score else scores)
          mappings []"

definition sorted_specialties :: "(int \<times> int) list \<Rightarrow> (int \<times> int) list" where
  \<comment> \<open>\<open>sorted(items, key=lambda x: x[1], reverse=True)[:3]\<close>; Python's sort is stable, also reversed\<close>
  "sorted_specialties scores = take 3 (sort_key (\<lambda>x. - snd x) scores)"

definition doctor_dict :: "doctor \<Rightarrow> int \<Rightarrow> specialty \<Rightarrow> doctor_info" where
  "doctor_dict doctor score specialty =
     \<lparr>di_id = d_id doctor, di_name = d_name doctor, di_specialty = d_specialty doctor,
      di_match_score = score, di_specialty_info = specialty\<rparr>"

definition specialty_doctors :: "store \<Rightarrow> int \<times> int \<Rightarrow> doctor_info list" where
  "specialty_doctors st item =
     (case find (\<lambda>s. sp_id s = fst item) (specialties st) of
        None \<Rightarrow> []
      | Some specialty \<Rightarrow>
          map (\<lambda>doctor. doctor_dict doctor (snd item) specialty)
              (filter (\<lambda>d. d_specialty d = sp_name specialty) (doctors st)))"

definition search_doctors_by_symptoms :: "store \<Rightarrow> string \<Rightarrow> doctor_info list" where
  "search_doctors_by_symptoms st symptoms =
     (let symptoms_lower = lower symptoms
      in concat (map (specialty_doctors st)
                     (sorted_specialties (specialty_scores (symptom_mappings st) symptoms_lower))))"

section \<open>Slot search (\<open>SchedulerAgent._find_best_available_slot\<close>)\<close>

definition is_slot_still_available :: "store \<Rightarrow> int \<Rightarrow> date \<Rightarrow> time \<Rightarrow> bool" where
  "is_slot_still_available st doctor_id s_date s_time =
     (existing_appointment st doctor_id s_date s_time = None
      \<and> blocked_slot st doctor_id s_date s_time = None)"

text \<open>
  The three nested loops, innermost first; \<open>None\<close> means the loop ran to its end without
  a \<open>return\<close>. A \<open>datetime.time\<close> and a \<open>datetime.date\<close> are always true in a condition,
  so \<open>if preferred_time\<close> tests for \<open>None\<close> only.
\<close>

fun scan_slots :: "store \<Rightarrow> int \<Rightarrow> date \<Rightarrow> time option \<Rightarrow> slot list \<Rightarrow> slot option" where
  "scan_slots st doctor_id search_date preferred_time [] = None"
| "scan_slots st doctor_id search_date preferred_time (slot # rest) =
     (if is_slot_still_available st doctor_id (slot_date slot) (slot_time slot)
      then (case preferred_time of
              Some pt \<Rightarrow>
                if \<bar>total_seconds (slot_date slot, slot_time slot) (search_date, pt)\<bar> \<le> 7200
                then Some slot
                else scan_slots st doctor_id search_date preferred_time rest
            | None \<Rightarrow> Some slot)
      else scan_slots st doctor_id search_date preferred_time rest)"

fun scan_doctors :: "store \<Rightarrow> date \<Rightarrow> time option \<Rightarrow> doctor_info list \<Rightarrow> slot option" where
  "scan_doctors st search_date preferred_time [] = None"
| "scan_doctors st search_date preferred_time (doctor_info # rest) =
     (case scan_slots st (di_id doctor_info) search_date preferred_time
             (get_doctor_availability st (di_id doctor_info) search_date 1) of
        Some slot \<Rightarrow> Some slot
      | None \<Rightarrow> scan_doctors st search_date preferred_time rest)"

fun scan_days ::
  "store \<Rightarrow> date \<Rightarrow> time option \<Rightarrow> doctor_info list \<Rightarrow> nat list \<Rightarrow> slot option" where
  "scan_days st search_start_date preferred_time recommended_doctors [] = None"
| "scan_days st search_start_date preferred_time recommended_doctors (days_ahead # rest) =
     (case scan_doctors st (search_start_date + int days_ahead) preferred_time
             (take 5 recommended_doctors) of
        Some slot \<Rightarrow> Some slot
      | None \<Rightarrow> scan_days st search_start_date preferred_time recommended_doctors rest)"

definition find_best_available_slot ::
  "store \<Rightarrow> date \<Rightarrow> doctor_info list \<Rightarrow> date option \<Rightarrow> time option \<Rightarrow> slot option" where
  "find_best_available_slot st today recommended_doctors preferred_date preferred_time =
     (let search_start_date = (case preferred_date of Some d \<Rightarrow> d | None \<Rightarrow> today)
      in scan_days st search_start_date preferred_time recommended_doctors [0 ..< 14])"

section \<open>Serial numbers (\<open>RAGService.generate_serial_number\<close>)\<close>

datatype py_error = ValueError | IntegrityError | AttributeError

definition is_digit :: "char \<Rightarrow> bool" where
  "is_digit c = (48 \<le> (of_char c :: nat) \<and> (of_char c :: nat) \<le> 57)"

definition digit_val :: "char \<Rightarrow> nat" where
  "digit_val c = of_char c - 48"

definition is_py_space :: "char \<Rightarrow> bool" where
  \<comment> \<open>\<open>str.isspace\<close> on the code points below 256\<close>
  "is_py_space c =
     (let n = (of_char c :: nat)
      in (9 \<le> n \<and> n \<le> 13) \<or> (28 \<le> n \<and> n \<le> 32) \<or> n = 133 \<or> n = 160)"

definition py_strip :: "string \<Rightarrow> string" where
  "py_strip s = rev (dropWhile is_py_space (rev (dropWhile is_py_space s)))"

text \<open>
  \<open>int(s)\<close> in base 10: surrounding white space is dropped, one sign may lead, then
  digits follow, with single underscores allowed between two digits. Anything else raises
  \<open>ValueError\<close>, here \<open>None\<close>. \<open>digits_rest\<close> reads what follows a digit.
\<close>

fun digits_rest :: "nat \<Rightarrow> string \<Rightarrow> nat option" where
  "digits_rest acc [] = Some acc"
| "digits_rest acc [c] = (if is_digit c then Some (acc * 10 + digit_val c) else None)"
| "digits_rest acc (c # d # cs) =
     (if is_digit c then digits_rest (acc * 10 + digit_val c) (d # cs)
      else if c = CHR ''_'' \<and> is_digit d then digits_rest (acc * 10 + digit_val d) cs
      else None)"

definition parse_nat :: "string \<Rightarrow> nat option" where
  "parse_nat s =
     (case s of [] \<Rightarrow> None
      | c # cs \<Rightarrow> if is_digit c then digits_rest (digit_val c) cs else None)"

definition py_int :: "string \<Rightarrow> int option" where
  "py_int s =
     (case py_strip s of
        [] \<Rightarrow> None
      | c # cs \<Rightarrow>
          if c = CHR ''-'' then map_option (\<lambda>n. - int n) (parse_nat cs)
          else if c = CHR ''+'' then map_option int (parse_nat cs)
          else map_option int (parse_nat (c # cs)))"

text \<open>\<open>dec n\<close>: the decimal digits of \<open>n\<close>; \<open>format_03d n\<close>: the format \<open>{n:03d}\<close>.\<close>

function dec :: "nat \<Rightarrow> string" where
  "dec n = (if n < 10 then [char_of (48 + n)] else dec (n div 10) @ [char_of (48 + n mod 10)])"
  by pat_completeness auto
termination
  by (relation "measure (\<lambda>n. n)") auto

declare dec.simps [simp del]

definition zero_pad :: "nat \<Rightarrow> string \<Rightarrow> string" where
  "zero_pad w s = replicate (w - length s) (CHR ''0'') @ s"

definition format_03d :: "int \<Rightarrow> string" where
  "format_03d n =
     (if n < 0 then CHR ''-'' # zero_pad 2 (dec (nat (- n))) else zero_pad 3 (dec (nat n)))"

definition last_appointment :: "store \<Rightarrow> appointment option" where
  \<comment> \<open>\<open>query(Appointment).order_by(Appointment.id.desc()).first()\<close>\<close>
  "last_appointment st =
     (case appointments st of
        [] \<Rightarrow> None
      | a # rest \<Rightarrow> Some (fold (\<lambda>x best. if a_id best < a_id x then x else best) rest a))"

definition generate_serial_number :: "store \<Rightarrow> py_error + string" where
  "generate_serial_number st =
     (case last_appointment st of
        Some last_apt \<Rightarrow>
          (case py_int (drop 2 (a_serial_number last_apt)) of
             None \<Rightarrow> Inl ValueError
           | Some last_num \<Rightarrow> Inr (''XH'' @ format_03d (last_num + 1)))
      | None \<Rightarrow> Inr (''XH'' @ format_03d 1))"

section \<open>Booking (\<open>SchedulerAgent\<close>)\<close>

text \<open>
  The database gives a new row the next primary key: one above the highest, 1 in an
  empty table.
\<close>

definition next_id :: "int list \<Rightarrow> int" where
  "next_id ids = (case ids of [] \<Rightarrow> 1 | x # xs \<Rightarrow> fold max xs x + 1)"

definition get_or_create_patient :: "store \<Rightarrow> string \<Rightarrow> string \<Rightarrow> store \<times> patient" where
  "get_or_create_patient st name phone =
     (case find (\<lambda>p. p_phone p = phone) (patients st) of
        Some patient \<Rightarrow> (st, patient)
      | None \<Rightarrow>
          (let patient = \<lparr>p_id = next_id (map p_id (patients st)), p_name = name, p_phone = phone\<rparr>
           in (st\<lparr>patients := patients st @ [patient]\<rparr>, patient)))"

text \<open>
  \<open>_create_appointment\<close>: the commit fails with \<open>IntegrityError\<close> when the serial number
  is already in the table (the column is unique).
\<close>

definition create_appointment ::
  "store \<Rightarrow> int \<Rightarrow> int \<Rightarrow> date \<Rightarrow> time \<Rightarrow> string \<Rightarrow> booking_channel
     \<Rightarrow> py_error + store \<times> appointment" where
  "create_appointment st patient_id doctor_id appointment_date appointment_time symptoms channel =
     (case generate_serial_number st of
        Inl e \<Rightarrow> Inl e
      | Inr serial_number \<Rightarrow>
          if serial_number \<in> set (map a_serial_number (appointments st)) then Inl IntegrityError
          else
            (let appointment =
                   \<lparr>a_id = next_id (map a_id (appointments st)), a_patient_id = patient_id,
                    a_doctor_id = doctor_id, a_date = appointment_date,
                    a_time = appointment_time, a_status = Scheduled, a_symptoms = symptoms,
                    a_notes = [], a_serial_number = serial_number,
                    a_booking_channel = channel\<rparr>
             in Inr (st\<lparr>appointments := appointments st @ [appointment]\<rparr>, appointment)))"

record booking_request =
  rq_patient_name :: string
  rq_patient_phone :: string
  rq_symptoms :: string
  rq_preferred_date :: "date option"
  rq_preferred_time :: "time option"
  rq_booking_channel :: booking_channel

text \<open>
  The message of a response, by the branch that wrote it: \<open>Urgent r\<close> is the text
  \<open>URGENT: r Please call emergency services or visit ER immediately.\<close>, and
  \<open>Booking_failed e\<close> the text of the \<open>except\<close> branch for the exception \<open>e\<close>.
\<close>

datatype message =
    No_suitable_doctors
  | Urgent string
  | No_immediate_availability
  | Appointment_confirmed
  | Booking_failed py_error

record booking_response =
  rs_success :: bool
  rs_appointment :: "appointment option"
  rs_message :: message
  rs_suggested_doctors :: "doctor list"
  rs_available_slots :: "slot list option"

definition failure :: "message \<Rightarrow> doctor list \<Rightarrow> slot list option \<Rightarrow> booking_response" where
  "failure msg docs slots =
     \<lparr>rs_success = False, rs_appointment = None, rs_message = msg,
      rs_suggested_doctors = docs, rs_available_slots = slots\<rparr>"

definition to_doctor :: "doctor_info \<Rightarrow> doctor" where
  \<comment> \<open>the response schema keeps the doctor's own fields of the dictionary\<close>
  "to_doctor di = \<lparr>d_id = di_id di, d_name = di_name di, d_specialty = di_specialty di\<rparr>"

definition alternative_slots :: "store \<Rightarrow> date \<Rightarrow> doctor_info list \<Rightarrow> slot list" where
  "alternative_slots st today recommended_doctors =
     take 10 (concat (map (\<lambda>doctor_info. take 5 (get_doctor_availability st (di_id doctor_info) today 14))
                          (take 3 recommended_doctors)))"

definition book_appointment :: "date \<Rightarrow> store \<Rightarrow> booking_request \<Rightarrow> store \<times> booking_response" where
  "book_appointment today st request =
     (let (st1, patient) =
            get_or_create_patient st (rq_patient_name request) (rq_patient_phone request);
          recommended_doctors = search_doctors_by_symptoms st1 (rq_symptoms request)
      in if recommended_doctors = [] then (st1, failure No_suitable_doctors [] None)
         else
           (let urgency_check = get_urgent_symptoms_check (rq_symptoms request)
            in if urgency_level urgency_check = High
               then (st1, failure (Urgent (recommendation urgency_check))
                            (map to_doctor (take 3 recommended_doctors)) None)
               else
                 (case find_best_available_slot st1 today recommended_doctors
                         (rq_preferred_date request) (rq_preferred_time request) of
                    None \<Rightarrow>
                      (st1, failure No_immediate_availability
                              (map to_doctor (take 3 recommended_doctors))
                              (Some (alternative_slots st1 today recommended_doctors)))
                  | Some best_slot \<Rightarrow>
                      (case create_appointment st1 (p_id patient) (slot_doctor_id best_slot)
                              (slot_date best_slot) (slot_time best_slot)
                              (rq_symptoms request) (rq_booking_channel request) of
                         Inl e \<Rightarrow> (st1, failure (Booking_failed e) [] None)
                       | Inr (st2, appointment) \<Rightarrow>
                           (case get_doctor st2 (slot_doctor_id best_slot) of
                              None \<Rightarrow> (st2, failure (Booking_failed AttributeError) [] None)
                            | Some doctor \<Rightarrow>
                                (st2, \<lparr>rs_success = True, rs_appointment = Some appointment,
                                       rs_message = Appointment_confirmed,
                                       rs_suggested_doctors = [doctor],
                                       rs_available_slots = None\<rparr>))))))"

text \<open>
  \<open>update_first P f\<close> rewrites the row that \<open>query.filter(P).first()\<close> returned, as the
  commit after assigning to its attributes does.
\<close>

fun update_first :: "('a \<Rightarrow> bool) \<Rightarrow> ('a \<Rightarrow> 'a) \<Rightarrow> 'a list \<Rightarrow> 'a list" where
  "update_first P f [] = []"
| "update_first P f (x # xs) = (if P x then f x # xs else x # update_first P f xs)"

datatype outcome = Not_found | Slot_not_available | Done

definition scheduled_with_id :: "int \<Rightarrow> appointment \<Rightarrow> bool" where
  "scheduled_with_id appointment_id a = (a_id a = appointment_id \<and> a_status a = Scheduled)"

definition cancel_appointment :: "store \<Rightarrow> int \<Rightarrow> string \<Rightarrow> store \<times> outcome" where
  "cancel_appointment st appointment_id reason =
     (case find (scheduled_with_id appointment_id) (appointments st) of
        None \<Rightarrow> (st, Not_found)
      | Some appointment \<Rightarrow>
          (st\<lparr>appointments :=
                update_first (scheduled_with_id appointment_id)
                  (\<lambda>a. a\<lparr>a_status := Cancelled,
                         a_notes := (if reason \<noteq> [] then ''Cancelled: '' @ reason
                                     else ''Cancelled by patient'')\<rparr>)
                  (appointments st)\<rparr>, Done))"

text \<open>\<open>now\<close> is the text of \<open>datetime.now().strftime('%Y-%m-%d %H:%M')\<close>.\<close>

definition reschedule_appointment ::
  "string \<Rightarrow> store \<Rightarrow> int \<Rightarrow> date \<Rightarrow> time \<Rightarrow> store \<times> outcome" where
  "reschedule_appointment now st appointment_id new_date new_time =
     (case find (scheduled_with_id appointment_id) (appointments st) of
        None \<Rightarrow> (st, Not_found)
      | Some appointment \<Rightarrow>
          if \<not> is_slot_still_available st (a_doctor_id appointment) new_date new_time
          then (st, Slot_not_available)
          else
            (st\<lparr>appointments :=
                  update_first (scheduled_with_id appointment_id)
                    (\<lambda>a. a\<lparr>a_date := new_date, a_time := new_time,
                           a_notes := ''Rescheduled on '' @ now\<rparr>)
                    (appointments st)\<rparr>, Done))"

section \<open>Patient appointments (\<open>SchedulerAgent.get_patient_appointments\<close>)\<close>

record appointment_view =
  v_id :: int
  v_serial_number :: string
  v_date :: date
  v_time :: time
  v_doctor_name :: string
  v_specialty :: string
  v_symptoms :: string
  v_status :: appointment_status
  v_notes :: string

text \<open>
  The loop that builds the result; \<open>apt.doctor\<close> is \<open>None\<close> when no doctor has the
  appointment's doctor id, and \<open>apt.doctor.name\<close> then raises, which is \<open>None\<close> here.
\<close>

fun appointment_views :: "store \<Rightarrow> appointment list \<Rightarrow> appointment_view list option" where
  "appointment_views st [] = Some []"
| "appointment_views st (apt # rest) =
     (case get_doctor st (a_doctor_id apt) of
        None \<Rightarrow> None
      | Some doctor \<Rightarrow>
          (case appointment_views st rest of
             None \<Rightarrow> None
           | Some result \<Rightarrow>
               Some (\<lparr>v_id = a_id apt, v_serial_number = a_serial_number apt,
                      v_date = a_date apt, v_time = hhmm (a_time apt),
                      v_doctor_name = d_name doctor, v_specialty = d_specialty doctor,
                      v_symptoms = a_symptoms apt, v_status = a_status apt,
                      v_notes = a_notes apt\<rparr> # result)))"

text \<open>
  \<open>order_by(Appointment.appointment_date.desc())\<close>: descending by date; rows of equal
  date are taken in table order. The \<open>except\<close> branch returns the empty list.
\<close>

definition get_patient_appointments :: "store \<Rightarrow> string \<Rightarrow> appointment_view list" where
  "get_patient_appointments st phone_number =
     (case find (\<lambda>p. p_phone p = phone_number) (patients st) of
        None \<Rightarrow> []
      | Some patient \<Rightarrow>
          (case appointment_views st
                  (sort_key (\<lambda>a. - a_date a)
                     (filter (\<lambda>a. a_patient_id a = p_id patient) (appointments st))) of
             None \<Rightarrow> []
           | Some result \<Rightarrow> result))"

section \<open>The availability rule as the specification words it\<close>

text \<open>
  The definitions of this section follow the specification, not the code: the times of a
  rule in 30-minute steps from its start (inclusive) to its end (exclusive), the weekday
  of a date counted from Sunday = 0, a slot being open (no scheduled appointment and no
  blocked time slot at the doctor, date and time), and the slots of one date and of a
  range of dates.
\<close>

definition rule_times :: "time \<Rightarrow> time \<Rightarrow> time list" where
  "rule_times start_t end_t = map (\<lambda>k. start_t + 1800 * k) [0 ..< (end_t - start_t + 1799) div 1800]"

definition sunday_weekday :: "date \<Rightarrow> int" where
  "sunday_weekday d = d mod 7"

definition slot_open :: "store \<Rightarrow> int \<Rightarrow> date \<Rightarrow> time \<Rightarrow> bool" where
  "slot_open st doctor_id d t =
     (\<not> list_ex (\<lambda>a. a_status a = Scheduled \<and> a_doctor_id a = doctor_id \<and> a_date a = d \<and> a_time a = t)
            (appointments st)
      \<and> \<not> list_ex (\<lambda>b. ts_is_blocked b \<and> ts_doctor_id b = doctor_id \<and> ts_slot_date b = d \<and> ts_slot_time b = t)
            (time_slots st))"

definition spec_day_slots :: "store \<Rightarrow> int \<Rightarrow> date \<Rightarrow> (date \<times> time) list" where
  "spec_day_slots st doctor_id d =
     (case find (\<lambda>r. sch_is_active r \<and> sch_day_of_week r = sunday_weekday d)
                (doctor_schedules st doctor_id) of
        None \<Rightarrow> []
      | Some r \<Rightarrow> map (Pair d) (filter (slot_open st doctor_id d)
                                  (rule_times (sch_start_time r) (sch_end_time r))))"

definition spec_availability :: "store \<Rightarrow> int \<Rightarrow> date \<Rightarrow> int \<Rightarrow> (date \<times> time) list" where
  "spec_availability st doctor_id start_date num_days =
     concat (map (spec_day_slots st doctor_id) [start_date .. start_date + num_days])"

definition datetime_less :: "date \<times> time \<Rightarrow> date \<times> time \<Rightarrow> bool" where
  "datetime_less a b = (fst a < fst b \<or> (fst a = fst b \<and> snd a < snd b))"

text \<open>The slots of one date as the loop body computes them.\<close>

definition day_slots :: "store \<Rightarrow> int \<Rightarrow> doctor_schedule list \<Rightarrow> date \<Rightarrow> (date \<times> time) list" where
  "day_slots st i scheds d =
     (case day_schedule scheds d of None \<Rightarrow> []
      | Some r \<Rightarrow> map (Pair d) (filter (slot_open st i d)
                                  (rule_times (sch_start_time r) (sch_end_time r))))"

text \<open>
  The scenario of the specification: Dr. A with one active Monday rule 18:00 to 20:00,
  no bookings and no blocks. Day 738886 is Monday 2024-01-01.
\<close>

definition dr_a_store :: store where
  "dr_a_store =
     \<lparr>doctors = [\<lparr>d_id = 1, d_name = ''Dr. A'', d_specialty = ''Cardiology''\<rparr>],
      schedules = [\<lparr>sch_doctor_id = 1, sch_day_of_week = 1, sch_start_time = 64800,
                    sch_end_time = 72000, sch_is_active = True\<rparr>],
      patients = [], appointments = [], specialties = [], symptom_mappings = [],
      time_slots = []\<rparr>"

section \<open>Notions the claims are stated with\<close>

text \<open>
  The start of the search window, the slot an appointment occupies, the occupied slots of
  the scheduled appointments, and the invariant that no two of them coincide. A store is
  reachable when it arises from one without appointments by bookings, cancellations and
  reschedulings, one after the other, with the other tables edited at will in between.
\<close>

definition search_start :: "date \<Rightarrow> date option \<Rightarrow> date" where
  "search_start today preferred_date = (case preferred_date of Some d \<Rightarrow> d | None \<Rightarrow> today)"

definition slot_key :: "appointment \<Rightarrow> int \<times> date \<times> time" where
  "slot_key a = (a_doctor_id a, a_date a, a_time a)"

definition scheduled_keys :: "appointment list \<Rightarrow> (int \<times> date \<times> time) list" where
  "scheduled_keys as = map slot_key (filter (\<lambda>a. a_status a = Scheduled) as)"

definition no_double_booking :: "store \<Rightarrow> bool" where
  "no_double_booking st = distinct (scheduled_keys (appointments st))"

inductive reachable :: "store \<Rightarrow> bool" where
  init: "appointments st = [] \<Longrightarrow> reachable st"
| book: "reachable st \<Longrightarrow> reachable (fst (book_appointment today st request))"
| cancel: "reachable st \<Longrightarrow> reachable (fst (cancel_appointment st appointment_id reason))"
| reschedule:
    "reachable st \<Longrightarrow> reachable (fst (reschedule_appointment now st appointment_id new_date new_time))"
| other_tables:
    "reachable st \<Longrightarrow>
       reachable (st\<lparr>doctors := ds, schedules := ss, specialties := sps,
                     symptom_mappings := ms, time_slots := ts\<rparr>)"

text \<open>Dr. A's store after one booking for Monday 2024-01-01 at 18:00.\<close>

definition dr_a_booked :: store where
  "dr_a_booked =
     dr_a_store
       \<lparr>patients := [\<lparr>p_id = 1, p_name = ''John Smith'', p_phone = ''+8801234567890''\<rparr>],
        appointments :=
          [\<lparr>a_id = 1, a_patient_id = 1, a_doctor_id = 1, a_date = 738886, a_time = 64800,
            a_status = Scheduled, a_symptoms = ''chest pain'', a_notes = [],
            a_serial_number = ''XH001'', a_booking_channel = Chat\<rparr>]\<rparr>"

text \<open>The slots of one date, as the body of the date loop adds them.\<close>

definition day_slot_list :: "store \<Rightarrow> doctor \<Rightarrow> int \<Rightarrow> doctor_schedule list \<Rightarrow> date \<Rightarrow> slot list" where
  "day_slot_list st doctor i scheds d =
     (case day_schedule scheds d of
        None \<Rightarrow> []
      | Some r \<Rightarrow> map (make_slot doctor i d)
                     (filter (slot_open st i d) (rule_times (sch_start_time r) (sch_end_time r))))"

text \<open>
  A small clinic: one cardiologist who sees patients on Tuesdays from 09:00 to 11:30, one
  registered patient, no appointments yet. \<open>clinic_rahman\<close> is the cardiologist as the
  symptom matcher returns him for a text that mentions chest pain once.
\<close>

definition clinic :: store where
  "clinic =
     \<lparr>doctors = [\<lparr>d_id = 1, d_name = ''Dr. Rahman'', d_specialty = ''Cardiology''\<rparr>],
      schedules = [\<lparr>sch_doctor_id = 1, sch_day_of_week = 2, sch_start_time = 32400,
                    sch_end_time = 41400, sch_is_active = True\<rparr>],
      patients = [\<lparr>p_id = 1, p_name = ''John Smith'', p_phone = ''+8801234567890''\<rparr>],
      appointments = [],
      specialties = [\<lparr>sp_id = 1, sp_name = ''Cardiology'',
                      sp_description = ''Heart and cardiovascular system'',
                      sp_pre_visit_instructions = ''Please bring previous ECG reports.''\<rparr>],
      symptom_mappings = [\<lparr>sm_symptom_keywords = [''chest pain'', ''heart'', ''palpitation''],
                           sm_specialty_id = 1, sm_priority = 3\<rparr>],
      time_slots = []\<rparr>"

definition clinic_rahman :: doctor_info where
  "clinic_rahman =
     \<lparr>di_id = 1, di_name = ''Dr. Rahman'', di_specialty = ''Cardiology'', di_match_score = 3,
      di_specialty_info =
        \<lparr>sp_id = 1, sp_name = ''Cardiology'',
         sp_description = ''Heart and cardiovascular system'',
         sp_pre_visit_instructions = ''Please bring previous ECG reports.''\<rparr>\<rparr>"

text \<open>Requests of John Smith to the clinic.\<close>

definition clinic_request :: "string \<Rightarrow> date option \<Rightarrow> time option \<Rightarrow> booking_request" where
  "clinic_request text preferred_date preferred_time =
     \<lparr>rq_patient_name = ''John Smith'', rq_patient_phone = ''+8801234567890'',
      rq_symptoms = text, rq_preferred_date = preferred_date,
      rq_preferred_time = preferred_time, rq_booking_channel = Chat\<rparr>"

definition clinic_slot :: "date \<Rightarrow> time \<Rightarrow> slot" where
  "clinic_slot d t =
     \<lparr>slot_date = d, slot_time = t, slot_datetime = (d, t), slot_doctor_id = 1,
      slot_doctor_name = ''Dr. Rahman'', slot_specialty = ''Cardiology''\<rparr>"

text \<open>
  An appointment lies in a weekly rule when some active rule of its doctor has the weekday
  of its date (0 = Sunday) and contains its time; a store respects the schedules when
  every scheduled appointment lies in a weekly rule and is on no blocked slot.
\<close>

definition in_weekly_rule :: "store \<Rightarrow> appointment \<Rightarrow> bool" where
  "in_weekly_rule st a =
     list_ex (\<lambda>r. sch_is_active r \<and> sch_day_of_week r = sunday_weekday (a_date a)
                 \<and> sch_start_time r \<le> a_time a \<and> a_time a < sch_end_time r)
             (doctor_schedules st (a_doctor_id a))"

definition respects_schedules :: "store \<Rightarrow> bool" where
  "respects_schedules st =
     list_all (\<lambda>a. in_weekly_rule st a
                  \<and> blocked_slot st (a_doctor_id a) (a_date a) (a_time a) = None)
              (filter (\<lambda>a. a_status a = Scheduled) (appointments st))"

text \<open>
  The entry that \<open>get_patient_appointments\<close> shows for an appointment whose doctor is in
  the store.
\<close>

definition view_of :: "store \<Rightarrow> appointment \<Rightarrow> appointment_view" where
  "view_of st apt =
     \<lparr>v_id = a_id apt, v_serial_number = a_serial_number apt, v_date = a_date apt,
      v_time = hhmm (a_time apt),
      v_doctor_name = d_name (the (get_doctor st (a_doctor_id apt))),
      v_specialty = d_specialty (the (get_doctor st (a_doctor_id apt))),
      v_symptoms = a_symptoms apt, v_status = a_status apt, v_notes = a_notes apt\<rparr>"

text \<open>
  The clinic with an earlier booking of John Smith for Tuesday 2024-01-09 (day 738894)
  at 09:00.
\<close>

definition clinic_returning :: store where
  "clinic_returning =
     clinic
       \<lparr>appointments :=
          [\<lparr>a_id = 1, a_patient_id = 1, a_doctor_id = 1, a_date = 738894, a_time = 32400,
            a_status = Scheduled, a_symptoms = ''palpitation'', a_notes = [],
            a_serial_number = ''XH001'', a_booking_channel = Chat\<rparr>]\<rparr>"

text \<open>
  The appointment that John Smith's request for chest pain, made on Monday 2024-01-01
  without preferences, creates at the clinic: the first free slot, Tuesday 2024-01-02 at
  09:00, with the given id and serial number.
\<close>

definition clinic_apt :: "int \<Rightarrow> string \<Rightarrow> appointment" where
  "clinic_apt new_id serial =
     \<lparr>a_id = new_id, a_patient_id = 1, a_doctor_id = 1, a_date = 738887, a_time = 32400,
      a_status = Scheduled, a_symptoms = ''I have chest pain'', a_notes = [],
      a_serial_number = serial, a_booking_channel = Chat\<rparr>"

definition confirmed :: "appointment \<Rightarrow> doctor \<Rightarrow> booking_response" where
  "confirmed a doctor =
     \<lparr>rs_success = True, rs_appointment = Some a, rs_message = Appointment_confirmed,
      rs_suggested_doctors = [doctor], rs_available_slots = None\<rparr>"




definition first_occurrences :: "'a list \<Rightarrow> 'a list" where
  "first_occurrences xs = rev (remdups (rev xs))"









text \<open>
  The date and time a slot is reported with (its \<open>'date'\<close> and \<open>'time'\<close> entries, the time
  to the minute), a date and time cut to the minute, the active rules of a doctor all
  starting on a whole minute, and two dates and times being in order at least half an
  hour apart when on the same date.
\<close>

definition reported :: "slot \<Rightarrow> date \<times> time" where
  "reported s = (slot_date s, slot_time s)"

definition to_minute :: "date \<times> time \<Rightarrow> date \<times> time" where
  "to_minute dt = (fst dt, hhmm (snd dt))"

definition whole_minute_rules :: "store \<Rightarrow> int \<Rightarrow> bool" where
  "whole_minute_rules st doctor_id =
     list_all (\<lambda>r. sch_is_active r \<longrightarrow> sch_start_time r mod 60 = 0)
       (doctor_schedules st doctor_id)"

definition half_hour_less :: "date \<times> time \<Rightarrow> date \<times> time \<Rightarrow> bool" where
  "half_hour_less a b = (fst a < fst b \<or> (fst a = fst b \<and> snd a + 1800 \<le> snd b))"

text \<open>
  Dr. A with the Monday rule starting at 18:00:30 instead, and a scheduled appointment
  on Monday 2024-01-01 at 18:00:00.
\<close>

definition sec_store :: store where
  "sec_store =
     dr_a_store
       \<lparr>schedules := [\<lparr>sch_doctor_id = 1, sch_day_of_week = 1, sch_start_time = 64830,
                        sch_end_time = 72000, sch_is_active = True\<rparr>],
        appointments :=
          [\<lparr>a_id = 1, a_patient_id = 1, a_doctor_id = 1, a_date = 738886, a_time = 64800,
            a_status = Scheduled, a_symptoms = [], a_notes = [],
            a_serial_number = ''XH001'', a_booking_channel = Chat\<rparr>]\<rparr>"

section \<open>Properties of the string helpers\<close>

lemma starts_with_iff: "starts_with k s \<longleftrightarrow> (\<exists>q. s = k @ q)"
  by (induction k s rule: starts_with.induct) auto

lemma str_in_iff: "str_in k s \<longleftrightarrow> (\<exists>p q. s = p @ k @ q)"
proof (induction s)
  case Nil
  then show ?case by auto
next
  case (Cons c cs)
  show ?case
  proof
    assume "str_in k (c # cs)"
    then consider "starts_with k (c # cs)" | "str_in k cs" by auto
    then show "\<exists>p q. c # cs = p @ k @ q"
    proof cases
      case 1
      then obtain q where "c # cs = k @ q" by (auto simp: starts_with_iff)
      then have "c # cs = [] @ k @ q" by simp
      then show ?thesis by blast
    next
      case 2
      with Cons obtain p q where "cs = p @ k @ q" by auto
      then have "c # cs = (c # p) @ k @ q" by simp
      then show ?thesis by blast
    qed
  next
    assume "\<exists>p q. c # cs = p @ k @ q"
    then obtain p q where pq: "c # cs = p @ k @ q" by auto
    show "str_in k (c # cs)"
    proof (cases p)
      case Nil
      with pq have "starts_with k (c # cs)" by (auto simp: starts_with_iff)
      then show ?thesis by simp
    next
      case (Cons a p')
      with pq have "cs = p' @ k @ q" by simp
      with Cons.IH have "str_in k cs" by blast
      then show ?thesis by simp
    qed
  qed
qed

section \<open>Properties of the urgency check\<close>

lemma scan_keywords_matched:
  "snd (scan_keywords lvl kws t (l0, m0)) = m0 @ filter (\<lambda>k. str_in k t) kws"
  unfolding scan_keywords_def
  by (induction kws arbitrary: l0 m0) auto

lemma scan_keywords_level:
  "fst (scan_keywords lvl kws t (l0, m0)) = (if list_ex (\<lambda>k. str_in k t) kws then lvl else l0)"
  unfolding scan_keywords_def
  by (induction kws arbitrary: l0 m0) auto

lemma scan_keywords_eqD:
  assumes "scan_keywords lvl kws t (l0, m0) = (l, m)"
  shows "l = (if list_ex (\<lambda>k. str_in k t) kws then lvl else l0)"
    and "m = m0 @ filter (\<lambda>k. str_in k t) kws"
  using scan_keywords_level [of lvl kws t l0 m0] scan_keywords_matched [of lvl kws t l0 m0] assms
  by simp_all

lemma urgency_level_eq:
  "urgency_level (get_urgent_symptoms_check s) =
     (if list_ex (\<lambda>k. str_in k (lower s)) urgent_keywords then High
      else if list_ex (\<lambda>k. str_in k (lower s)) medium_keywords then Medium
      else Low)"
  unfolding get_urgent_symptoms_check_def Let_def
  by (auto split: prod.splits if_splits dest!: scan_keywords_eqD(1))

section \<open>Properties of the availability generator\<close>

lemma ceil_step:
  "cur < end_t \<Longrightarrow>
     (end_t - cur + 1799) div 1800 = Suc ((end_t - (cur + 1800) + 1799) div (1800::nat))"
proof (cases "end_t - cur \<le> 1800")
  case True
  assume "cur < end_t"
  with True have "(end_t - cur + 1799) div 1800 = 1" by (simp add: Euclidean_Rings.div_nat_eqI)
  moreover from True have "end_t - (cur + 1800) = 0" by simp
  ultimately show ?thesis by simp
next
  case False
  then have "end_t - cur + 1799 = (end_t - (cur + 1800) + 1799) + 1800" by simp
  then show ?thesis by (simp only: div_add_self2)
qed

lemma rule_times_rec:
  "rule_times cur end_t = (if cur < end_t then cur # rule_times (cur + 1800) end_t else [])"
proof (cases "cur < end_t")
  case False
  then have "(end_t - cur + 1799) div 1800 = 0" by simp
  with False show ?thesis by (simp add: rule_times_def)
next
  case True
  define n where "n = (end_t - (cur + 1800) + 1799) div 1800"
  have n: "(end_t - cur + 1799) div 1800 = Suc n"
    unfolding n_def by (rule ceil_step [OF True])
  have upt: "[0..<Suc n] = 0 # map Suc [0..<n]"
    using upt_conv_Cons [of 0 "Suc n"] by (simp add: map_Suc_upt del: upt_Suc)
  have "rule_times cur end_t = map (\<lambda>k. cur + 1800 * k) (0 # map Suc [0..<n])"
    unfolding rule_times_def n upt ..
  also have "\<dots> = cur # map (\<lambda>k. cur + 1800 + 1800 * k) [0..<n]"
    by (simp add: comp_def)
  also have "\<dots> = cur # rule_times (cur + 1800) end_t"
    unfolding rule_times_def n_def ..
  finally show ?thesis using True by simp
qed

lemma existing_appointment_None:
  "existing_appointment st i d t = None \<longleftrightarrow>
     \<not> list_ex (\<lambda>a. a_status a = Scheduled \<and> a_doctor_id a = i \<and> a_date a = d \<and> a_time a = t) (appointments st)"
  by (auto simp: existing_appointment_def find_None_iff list_ex_iff)

lemma blocked_slot_None:
  "blocked_slot st i d t = None \<longleftrightarrow>
     \<not> list_ex (\<lambda>b. ts_is_blocked b \<and> ts_doctor_id b = i \<and> ts_slot_date b = d \<and> ts_slot_time b = t) (time_slots st)"
  by (auto simp: blocked_slot_def find_None_iff list_ex_iff)

lemma slot_open_iff:
  "slot_open st i d t \<longleftrightarrow> existing_appointment st i d t = None \<and> blocked_slot st i d t = None"
  by (simp add: slot_open_def existing_appointment_None blocked_slot_None)

lemma time_loop_eq:
  "time_loop st doctor i d cur end_t acc =
     acc @ map (make_slot doctor i d) (filter (slot_open st i d) (rule_times cur end_t))"
proof (induction st doctor i d cur end_t acc rule: time_loop.induct)
  case (1 st doctor i d cur end_t acc)
  show ?case
  proof (cases "cur < end_t")
    case False
    then show ?thesis by (subst time_loop.simps, subst rule_times_rec) simp
  next
    case True
    define acc' where "acc' = (if existing_appointment st i d cur = None \<and> blocked_slot st i d cur = None
              then acc @ [make_slot doctor i d cur] else acc)"
    have step: "time_loop st doctor i d cur end_t acc =
        time_loop st doctor i d (cur + 1800) end_t acc'"
      unfolding acc'_def using True by (subst time_loop.simps) simp
    have ih: "time_loop st doctor i d (cur + 1800) end_t acc' =
        acc' @ map (make_slot doctor i d) (filter (slot_open st i d) (rule_times (cur + 1800) end_t))"
      unfolding acc'_def by (rule 1 [OF True])
    have rt: "rule_times cur end_t = cur # rule_times (cur + 1800) end_t"
      using True by (subst rule_times_rec) simp
    have acc': "acc' = acc @ map (make_slot doctor i d) (filter (slot_open st i d) [cur])"
      unfolding acc'_def by (simp add: slot_open_iff)
    have "time_loop st doctor i d cur end_t acc =
        acc' @ map (make_slot doctor i d) (filter (slot_open st i d) (rule_times (cur + 1800) end_t))"
      using step ih by (rule trans)
    also have "\<dots> = acc @ map (make_slot doctor i d) (filter (slot_open st i d) (cur # rule_times (cur + 1800) end_t))"
      unfolding acc' by simp
    finally show ?thesis unfolding rt .
  qed
qed

lemma day_schedule_eq:
  "day_schedule scheds d = find (\<lambda>r. sch_is_active r \<and> sch_day_of_week r = sunday_weekday d) scheds"
proof -
  have wd: "(weekday d + 1) mod 7 = sunday_weekday d"
    unfolding weekday_def sunday_weekday_def by presburger
  have "find (\<lambda>r. sch_day_of_week r = k \<and> sch_is_active r) xs
      = find (\<lambda>r. sch_is_active r \<and> sch_day_of_week r = k) xs" for k xs
    by (induction xs) auto
  then show ?thesis unfolding day_schedule_def Let_def wd .
qed

lemma slot_datetime_make_slot: "slot_datetime (make_slot doctor i d t) = (d, t)"
  by (simp add: make_slot_def)

lemma date_loop_eq:
  "map slot_datetime (date_loop st doctor i scheds cur end_d acc) =
     map slot_datetime acc @ concat (map (day_slots st i scheds) [cur .. end_d])"
proof (induction st doctor i scheds cur end_d acc rule: date_loop.induct)
  case (1 st doctor i scheds cur end_d acc)
  show ?case
  proof (cases "cur \<le> end_d")
    case False
    then show ?thesis by (subst date_loop.simps) simp
  next
    case True
    define acc' where "acc' = (case day_schedule scheds cur of
                None \<Rightarrow> acc
              | Some sched \<Rightarrow>
                  time_loop st doctor i cur (sch_start_time sched) (sch_end_time sched) acc)"
    have step: "date_loop st doctor i scheds cur end_d acc =
        date_loop st doctor i scheds (cur + 1) end_d acc'"
      unfolding acc'_def using True by (subst date_loop.simps) simp
    have ih: "map slot_datetime (date_loop st doctor i scheds (cur + 1) end_d acc') =
       map slot_datetime acc' @ concat (map (day_slots st i scheds) [cur + 1 .. end_d])"
      unfolding acc'_def by (rule 1 [OF True])
    have acc': "map slot_datetime acc' = map slot_datetime acc @ day_slots st i scheds cur"
      unfolding acc'_def day_slots_def
      by (cases "day_schedule scheds cur")
         (simp_all add: time_loop_eq comp_def slot_datetime_make_slot)
    show ?thesis
      unfolding step ih acc' upto_rec1 [OF True] by simp
  qed
qed

lemma day_slots_eq: "day_slots st i (doctor_schedules st i) d = spec_day_slots st i d"
  by (simp add: day_slots_def spec_day_slots_def day_schedule_eq)

lemma availability_datetimes:
  "map slot_datetime (get_doctor_availability st doctor_id start_date days) =
     (if get_doctor st doctor_id = None then []
      else spec_availability st doctor_id start_date days)"
proof (cases "get_doctor st doctor_id")
  case None
  then show ?thesis by (simp add: get_doctor_availability_def)
next
  case (Some doctor)
  have "(\<lambda>d. day_slots st doctor_id (doctor_schedules st doctor_id) d) = spec_day_slots st doctor_id"
    by (rule ext) (rule day_slots_eq)
  then show ?thesis
    using Some by (simp add: get_doctor_availability_def spec_availability_def date_loop_eq)
qed

lemma sorted_rule_times: "sorted_wrt (<) (rule_times s e)"
proof -
  have "sorted_wrt (\<lambda>x y. s + 1800 * x < s + 1800 * y) [0 ..< (e - s + 1799) div 1800]"
    by (rule sorted_wrt_mono_rel [OF _ sorted_wrt_upt]) simp
  then show ?thesis unfolding rule_times_def sorted_wrt_map .
qed

lemma sorted_spec_day_slots: "sorted_wrt datetime_less (spec_day_slots st i d)"
proof (cases "find (\<lambda>r. sch_is_active r \<and> sch_day_of_week r = sunday_weekday d) (doctor_schedules st i)")
  case None
  then show ?thesis by (simp add: spec_day_slots_def)
next
  case (Some r)
  have "sorted_wrt (<) (filter (slot_open st i d) (rule_times (sch_start_time r) (sch_end_time r)))"
    by (rule sorted_wrt_filter) (rule sorted_rule_times)
  then show ?thesis
    using Some by (simp add: spec_day_slots_def sorted_wrt_map datetime_less_def)
qed

lemma fst_spec_day_slots: "x \<in> set (spec_day_slots st i d) \<Longrightarrow> fst x = d"
  by (auto simp: spec_day_slots_def split: option.splits)

lemma set_concat_days:
  "x \<in> set (concat (map (spec_day_slots st i) [a .. b])) \<Longrightarrow> a \<le> fst x \<and> fst x \<le> b"
  by (auto dest: fst_spec_day_slots)

lemma sorted_concat_days:
  "sorted_wrt datetime_less (concat (map (spec_day_slots st i) [a .. b]))"
proof (induction a b rule: upto.induct)
  case (1 a b)
  show ?case
  proof (cases "a \<le> b")
    case False
    then show ?thesis by simp
  next
    case True
    have cross: "datetime_less x y"
      if "x \<in> set (spec_day_slots st i a)"
        and "y \<in> set (concat (map (spec_day_slots st i) [a + 1 .. b]))" for x y
    proof -
      have "fst x = a" using that(1) by (rule fst_spec_day_slots)
      moreover have "a + 1 \<le> fst y" using set_concat_days [OF that(2)] by simp
      ultimately show ?thesis by (simp add: datetime_less_def)
    qed
    have "sorted_wrt datetime_less
            (spec_day_slots st i a @ concat (map (spec_day_slots st i) [a + 1 .. b]))"
      unfolding sorted_wrt_append
      using sorted_spec_day_slots [of st i a] 1 [OF True] cross by blast
    then show ?thesis by (simp add: upto_rec1 [OF True])
  qed
qed

lemma slot_fields_time_loop:
  "s \<in> set (time_loop st doctor i d cur end_t acc) \<Longrightarrow>
     s \<in> set acc \<or> (\<exists>t. s = make_slot doctor i d t)"
  by (auto simp: time_loop_eq)

lemma slot_fields_date_loop:
  "s \<in> set (date_loop st doctor i scheds cur end_d acc) \<Longrightarrow>
     s \<in> set acc \<or> (\<exists>d t. s = make_slot doctor i d t)"
proof (induction st doctor i scheds cur end_d acc rule: date_loop.induct)
  case (1 st doctor i scheds cur end_d acc)
  show ?case
  proof (cases "cur \<le> end_d")
    case False
    with 1(2) show ?thesis by (subst (asm) date_loop.simps) simp
  next
    case True
    define acc' where "acc' = (case day_schedule scheds cur of
                None \<Rightarrow> acc
              | Some sched \<Rightarrow>
                  time_loop st doctor i cur (sch_start_time sched) (sch_end_time sched) acc)"
    have "s \<in> set (date_loop st doctor i scheds (cur + 1) end_d acc')"
      using 1(2) True unfolding acc'_def by (subst (asm) date_loop.simps) simp
    then have "s \<in> set acc' \<or> (\<exists>d t. s = make_slot doctor i d t)"
      unfolding acc'_def by (rule 1(1) [OF True])
    moreover have "s \<in> set acc' \<Longrightarrow> s \<in> set acc \<or> (\<exists>d t. s = make_slot doctor i d t)"
      unfolding acc'_def
      by (cases "day_schedule scheds cur") (auto dest: slot_fields_time_loop)
    ultimately show ?thesis by blast
  qed
qed

lemma availability_slot_fields:
  assumes "s \<in> set (get_doctor_availability st doctor_id start_date days)"
  shows "\<exists>doctor. get_doctor st doctor_id = Some doctor \<and>
           s = make_slot doctor doctor_id (fst (slot_datetime s)) (snd (slot_datetime s))"
proof (cases "get_doctor st doctor_id")
  case None
  with assms show ?thesis by (simp add: get_doctor_availability_def)
next
  case (Some doctor)
  with assms have "s \<in> set (date_loop st doctor doctor_id (doctor_schedules st doctor_id)
                      start_date (start_date + days) [])"
    by (simp add: get_doctor_availability_def)
  then obtain d t where "s = make_slot doctor doctor_id d t"
    by (auto dest: slot_fields_date_loop)
  then show ?thesis using Some by (simp add: make_slot_def)
qed

lemma availability_slot_time:
  "map slot_time (get_doctor_availability st doctor_id start_date days) =
     map (\<lambda>dt. hhmm (snd dt)) (map slot_datetime (get_doctor_availability st doctor_id start_date days))"
proof -
  have "slot_time s = hhmm (snd (slot_datetime s))"
    if "s \<in> set (get_doctor_availability st doctor_id start_date days)" for s
  proof -
    from availability_slot_fields [OF that] obtain doctor where
      "s = make_slot doctor doctor_id (fst (slot_datetime s)) (snd (slot_datetime s))" by blast
    then have "slot_time s = slot_time (make_slot doctor doctor_id (fst (slot_datetime s)) (snd (slot_datetime s)))"
      by simp
    then show ?thesis by (simp add: make_slot_def)
  qed
  then show ?thesis by (simp add: comp_def)
qed

lemma example_monday:
  "map slot_datetime (get_doctor_availability dr_a_store 1 738886 0) =
     [(738886, 64800), (738886, 66600), (738886, 68400), (738886, 70200)]"
  by (simp add: availability_datetimes spec_availability_def spec_day_slots_def dr_a_store_def
        get_doctor_def doctor_schedules_def sunday_weekday_def rule_times_rec slot_open_def)

section \<open>The claims\<close>

text \<open>
  C6. The urgency classifier checks the high-severity keywords first, and any of them that
  is a substring of the lower-cased text forces level high; only when none is, it checks
  the medium-severity keywords, any hit forcing medium; otherwise the level is low. In
  particular "severe chest pain" is high, "chest pain" is medium and "routine checkup"
  is low.
\<close>

theorem urgency_tiers:
  "urgency_level (get_urgent_symptoms_check s) =
     (if list_ex (\<lambda>k. str_in k (lower s)) urgent_keywords then High
      else if list_ex (\<lambda>k. str_in k (lower s)) medium_keywords then Medium
      else Low)
   \<and> urgency_level (get_urgent_symptoms_check ''severe chest pain'') = High
   \<and> urgency_level (get_urgent_symptoms_check ''chest pain'') = Medium
   \<and> urgency_level (get_urgent_symptoms_check ''routine checkup'') = Low"
proof -
  have "urgency_level (get_urgent_symptoms_check ''severe chest pain'') = High"
    by code_simp
  moreover have "urgency_level (get_urgent_symptoms_check ''chest pain'') = Medium"
    by code_simp
  moreover have "urgency_level (get_urgent_symptoms_check ''routine checkup'') = Low"
    by code_simp
  ultimately show ?thesis using urgency_level_eq [of s] by blast
qed

theorem urgency_tiers_witness:
  "urgency_level (get_urgent_symptoms_check ''Sudden STROKE, also chest pain'') = High"
proof -
  have hit: "list_ex (\<lambda>k. str_in k (lower ''Sudden STROKE, also chest pain'')) urgent_keywords"
    by code_simp
  show ?thesis
    using urgency_tiers [of "''Sudden STROKE, also chest pain''"] hit by (simp only: if_True)
qed

section \<open>Properties of the slot search and of booking\<close>

lemma gocp_other_tables:
  assumes "get_or_create_patient st name phone = (st1, patient)"
  shows "appointments st1 = appointments st" "doctors st1 = doctors st"
    "schedules st1 = schedules st" "time_slots st1 = time_slots st"
    "specialties st1 = specialties st" "symptom_mappings st1 = symptom_mappings st"
  using assms by (auto simp: get_or_create_patient_def Let_def split: option.splits)

lemma find_snoc:
  "find P (xs @ [x]) = (case find P xs of Some y \<Rightarrow> Some y | None \<Rightarrow> if P x then Some x else None)"
  by (induction xs) auto

lemma gocp_patient:
  assumes "get_or_create_patient st name phone = (st1, patient)"
  shows "find (\<lambda>p. p_phone p = phone) (patients st1) = Some patient"
proof (cases "find (\<lambda>p. p_phone p = phone) (patients st)")
  case None
  with assms show ?thesis
    by (auto simp: get_or_create_patient_def Let_def find_snoc)
next
  case (Some p)
  with assms show ?thesis by (auto simp: get_or_create_patient_def)
qed

lemma scan_slots_Some:
  assumes "scan_slots st i d pt slots = Some slot"
  shows "slot \<in> set slots \<and> is_slot_still_available st i (slot_date slot) (slot_time slot)
         \<and> (case pt of Some t \<Rightarrow> \<bar>total_seconds (slot_date slot, slot_time slot) (d, t)\<bar> \<le> 7200
            | None \<Rightarrow> True)"
  using assms by (induction slots) (auto split: if_splits option.splits)

lemma scan_slots_find:
  "scan_slots st i d pt slots =
     find (\<lambda>s. is_slot_still_available st i (slot_date s) (slot_time s)
              \<and> (case pt of Some t \<Rightarrow> \<bar>total_seconds (slot_date s, slot_time s) (d, t)\<bar> \<le> 7200
                 | None \<Rightarrow> True)) slots"
  by (induction slots) (auto split: option.splits)

lemma scan_doctors_Some:
  assumes "scan_doctors st d pt docs = Some slot"
  shows "\<exists>di \<in> set docs. scan_slots st (di_id di) d pt (get_doctor_availability st (di_id di) d 1) = Some slot"
  using assms by (induction docs) (auto split: option.splits)

lemma scan_days_Some:
  assumes "scan_days st start pt docs ks = Some slot"
  shows "\<exists>k \<in> set ks. scan_doctors st (start + int k) pt (take 5 docs) = Some slot"
  using assms by (induction ks) (auto split: option.splits)

lemma find_best_Some:
  assumes "find_best_available_slot st today docs pd pt = Some slot"
  shows "\<exists>k < 14. \<exists>di \<in> set (take 5 docs).
           slot \<in> set (get_doctor_availability st (di_id di) (search_start today pd + int k) 1)
         \<and> is_slot_still_available st (di_id di) (slot_date slot) (slot_time slot)
         \<and> (case pt of
              Some t \<Rightarrow> \<bar>total_seconds (slot_date slot, slot_time slot) (search_start today pd + int k, t)\<bar> \<le> 7200
            | None \<Rightarrow> True)"
proof -
  from assms have "scan_days st (search_start today pd) pt docs [0 ..< 14] = Some slot"
    by (simp add: find_best_available_slot_def search_start_def)
  from scan_days_Some [OF this] obtain k where k: "k < 14"
    and "scan_doctors st (search_start today pd + int k) pt (take 5 docs) = Some slot" by auto
  from scan_doctors_Some [OF this(2)] obtain di where "di \<in> set (take 5 docs)"
    and "scan_slots st (di_id di) (search_start today pd + int k) pt
           (get_doctor_availability st (di_id di) (search_start today pd + int k) 1) = Some slot"
    by auto
  with scan_slots_Some [OF this(2)] k show ?thesis by blast
qed

lemma find_best_available:
  assumes "find_best_available_slot st today docs pd pt = Some slot"
  shows "is_slot_still_available st (slot_doctor_id slot) (slot_date slot) (slot_time slot)"
    and "get_doctor st (slot_doctor_id slot) \<noteq> None"
proof -
  from find_best_Some [OF assms] obtain k and di :: doctor_info where
    mem: "slot \<in> set (get_doctor_availability st (di_id di) (search_start today pd + int k) 1)"
    and av: "is_slot_still_available st (di_id di) (slot_date slot) (slot_time slot)" by blast
  from availability_slot_fields [OF mem] obtain doctor where
    d: "get_doctor st (di_id di) = Some doctor"
    and s: "slot = make_slot doctor (di_id di) (fst (slot_datetime slot)) (snd (slot_datetime slot))"
    by blast
  have "slot_doctor_id slot = slot_doctor_id (make_slot doctor (di_id di) (fst (slot_datetime slot)) (snd (slot_datetime slot)))"
    using s by simp
  then have id: "slot_doctor_id slot = di_id di" by (simp add: make_slot_def)
  show "is_slot_still_available st (slot_doctor_id slot) (slot_date slot) (slot_time slot)"
    using av id by simp
  show "get_doctor st (slot_doctor_id slot) \<noteq> None" using d id by simp
qed

lemma create_appointment_Inr:
  assumes "create_appointment st pid did d t sy ch = Inr (st2, a)"
  shows "st2 = st\<lparr>appointments := appointments st @ [a]\<rparr>"
    and "a_doctor_id a = did" and "a_date a = d" and "a_time a = t" and "a_status a = Scheduled"
    and "a_patient_id a = pid" and "a_id a = next_id (map a_id (appointments st))"
    and "generate_serial_number st = Inr (a_serial_number a)"
    and "a_serial_number a \<notin> a_serial_number ` set (appointments st)"
  using assms
  by (auto simp: create_appointment_def Let_def split: sum.splits if_splits)

lemma book_appointment_unfold:
  assumes "get_or_create_patient st (rq_patient_name rq) (rq_patient_phone rq) = (st1, patient)"
  shows "book_appointment today st rq =
     (if search_doctors_by_symptoms st1 (rq_symptoms rq) = []
      then (st1, failure No_suitable_doctors [] None)
      else if urgency_level (get_urgent_symptoms_check (rq_symptoms rq)) = High
      then (st1, failure (Urgent (recommendation (get_urgent_symptoms_check (rq_symptoms rq))))
                   (map to_doctor (take 3 (search_doctors_by_symptoms st1 (rq_symptoms rq)))) None)
      else
        (case find_best_available_slot st1 today (search_doctors_by_symptoms st1 (rq_symptoms rq))
                (rq_preferred_date rq) (rq_preferred_time rq) of
           None \<Rightarrow>
             (st1, failure No_immediate_availability
                     (map to_doctor (take 3 (search_doctors_by_symptoms st1 (rq_symptoms rq))))
                     (Some (alternative_slots st1 today
                              (search_doctors_by_symptoms st1 (rq_symptoms rq)))))
         | Some best_slot \<Rightarrow>
             (case create_appointment st1 (p_id patient) (slot_doctor_id best_slot)
                     (slot_date best_slot) (slot_time best_slot)
                     (rq_symptoms rq) (rq_booking_channel rq) of
                Inl e \<Rightarrow> (st1, failure (Booking_failed e) [] None)
              | Inr (st2, appointment) \<Rightarrow>
                  (case get_doctor st2 (slot_doctor_id best_slot) of
                     None \<Rightarrow> (st2, failure (Booking_failed AttributeError) [] None)
                   | Some doctor \<Rightarrow>
                       (st2, \<lparr>rs_success = True, rs_appointment = Some appointment,
                              rs_message = Appointment_confirmed,
                              rs_suggested_doctors = [doctor],
                              rs_available_slots = None\<rparr>)))))"
  unfolding book_appointment_def Let_def assms by simp

lemma failure_sel [simp]:
  "rs_success (failure m ds sl) = False" "rs_appointment (failure m ds sl) = None"
  "rs_message (failure m ds sl) = m" "rs_suggested_doctors (failure m ds sl) = ds"
  "rs_available_slots (failure m ds sl) = sl"
  by (simp_all add: failure_def)

lemma book_appointment_outcome:
  assumes b: "book_appointment today st rq = (st', resp)"
    and g: "get_or_create_patient st (rq_patient_name rq) (rq_patient_phone rq) = (st1, patient)"
  shows "(st' = st1 \<and> \<not> rs_success resp \<and> rs_appointment resp = None)
       \<or> (\<exists>slot a doctor.
            search_doctors_by_symptoms st1 (rq_symptoms rq) \<noteq> []
          \<and> urgency_level (get_urgent_symptoms_check (rq_symptoms rq)) \<noteq> High
          \<and> find_best_available_slot st1 today (search_doctors_by_symptoms st1 (rq_symptoms rq))
               (rq_preferred_date rq) (rq_preferred_time rq) = Some slot
          \<and> create_appointment st1 (p_id patient) (slot_doctor_id slot) (slot_date slot)
               (slot_time slot) (rq_symptoms rq) (rq_booking_channel rq) = Inr (st', a)
          \<and> get_doctor st' (slot_doctor_id slot) = Some doctor
          \<and> resp = \<lparr>rs_success = True, rs_appointment = Some a,
                     rs_message = Appointment_confirmed,
                     rs_suggested_doctors = [doctor], rs_available_slots = None\<rparr>)"
proof -
  note unf = b [unfolded book_appointment_unfold [OF g]]
  let ?rec = "search_doctors_by_symptoms st1 (rq_symptoms rq)"
  let ?fb = "find_best_available_slot st1 today ?rec (rq_preferred_date rq) (rq_preferred_time rq)"
  consider (none) "?rec = []"
    | (high) "?rec \<noteq> []" "urgency_level (get_urgent_symptoms_check (rq_symptoms rq)) = High"
    | (noslot) "?rec \<noteq> []" "urgency_level (get_urgent_symptoms_check (rq_symptoms rq)) \<noteq> High"
        "?fb = None"
    | (slot) slot where "?rec \<noteq> []"
        "urgency_level (get_urgent_symptoms_check (rq_symptoms rq)) \<noteq> High" "?fb = Some slot"
    by (cases ?fb) auto
  then show ?thesis
  proof cases
    case none
    with unf have "(st1, failure No_suitable_doctors [] None) = (st', resp)" by auto
    then show ?thesis by auto
  next
    case high
    with unf have "(st1, failure (Urgent (recommendation (get_urgent_symptoms_check (rq_symptoms rq))))
                   (map to_doctor (take 3 ?rec)) None) = (st', resp)" by auto
    then show ?thesis by auto
  next
    case noslot
    with unf have "(st1, failure No_immediate_availability (map to_doctor (take 3 ?rec))
                     (Some (alternative_slots st1 today ?rec))) = (st', resp)" by auto
    then show ?thesis by auto
  next
    case slot
    let ?cr = "create_appointment st1 (p_id patient) (slot_doctor_id slot) (slot_date slot)
         (slot_time slot) (rq_symptoms rq) (rq_booking_channel rq)"
    show ?thesis
    proof (cases ?cr)
      case (Inl e)
      with unf slot have "(st1, failure (Booking_failed e) [] None) = (st', resp)" by auto
      then show ?thesis by auto
    next
      case (Inr p)
      obtain st2 a where p: "p = (st2, a)" by (cases p)
      from create_appointment_Inr(1) [OF Inr [unfolded p]]
      have "doctors st2 = doctors st1" by simp
      then have "get_doctor st2 (slot_doctor_id slot) = get_doctor st1 (slot_doctor_id slot)"
        by (simp add: get_doctor_def)
      with find_best_available(2) [OF slot(3)] obtain doctor where
        d: "get_doctor st2 (slot_doctor_id slot) = Some doctor" by auto
      from unf slot Inr p d have
        "(st2, \<lparr>rs_success = True, rs_appointment = Some a, rs_message = Appointment_confirmed,
               rs_suggested_doctors = [doctor], rs_available_slots = None\<rparr>) = (st', resp)"
        by auto
      then have "st' = st2"
        and "resp = \<lparr>rs_success = True, rs_appointment = Some a, rs_message = Appointment_confirmed,
               rs_suggested_doctors = [doctor], rs_available_slots = None\<rparr>"
        by simp_all
      with slot Inr p d show ?thesis by blast
    qed
  qed
qed


lemma existing_appointment_keys:
  "existing_appointment st i d t = None \<longleftrightarrow> (i, d, t) \<notin> set (scheduled_keys (appointments st))"
  by (auto simp: existing_appointment_def find_None_iff scheduled_keys_def slot_key_def)

lemma available_not_key:
  "is_slot_still_available st i d t \<Longrightarrow> (i, d, t) \<notin> set (scheduled_keys (appointments st))"
  by (simp add: is_slot_still_available_def existing_appointment_keys)

lemma book_preserves:
  assumes "no_double_booking st"
  shows "no_double_booking (fst (book_appointment today st rq))"
proof -
  obtain st' resp where b: "book_appointment today st rq = (st', resp)"
    by (cases "book_appointment today st rq")
  obtain st1 patient where g:
    "get_or_create_patient st (rq_patient_name rq) (rq_patient_phone rq) = (st1, patient)"
    by (cases "get_or_create_patient st (rq_patient_name rq) (rq_patient_phone rq)")
  have a1: "appointments st1 = appointments st" by (rule gocp_other_tables(1) [OF g])
  from book_appointment_outcome [OF b g] show ?thesis
  proof
    assume "st' = st1 \<and> \<not> rs_success resp \<and> rs_appointment resp = None"
    with assms a1 b show ?thesis by (simp add: no_double_booking_def)
  next
    assume "\<exists>slot a doctor.
            search_doctors_by_symptoms st1 (rq_symptoms rq) \<noteq> []
          \<and> urgency_level (get_urgent_symptoms_check (rq_symptoms rq)) \<noteq> High
          \<and> find_best_available_slot st1 today (search_doctors_by_symptoms st1 (rq_symptoms rq))
               (rq_preferred_date rq) (rq_preferred_time rq) = Some slot
          \<and> create_appointment st1 (p_id patient) (slot_doctor_id slot) (slot_date slot)
               (slot_time slot) (rq_symptoms rq) (rq_booking_channel rq) = Inr (st', a)
          \<and> get_doctor st' (slot_doctor_id slot) = Some doctor
          \<and> resp = \<lparr>rs_success = True, rs_appointment = Some a,
                     rs_message = Appointment_confirmed,
                     rs_suggested_doctors = [doctor], rs_available_slots = None\<rparr>"
    then obtain slot a where
      fb: "find_best_available_slot st1 today (search_doctors_by_symptoms st1 (rq_symptoms rq))
               (rq_preferred_date rq) (rq_preferred_time rq) = Some slot"
      and cr: "create_appointment st1 (p_id patient) (slot_doctor_id slot) (slot_date slot)
               (slot_time slot) (rq_symptoms rq) (rq_booking_channel rq) = Inr (st', a)"
      by blast
    have fresh: "(slot_doctor_id slot, slot_date slot, slot_time slot)
                   \<notin> set (scheduled_keys (appointments st1))"
      by (rule available_not_key [OF find_best_available(1) [OF fb]])
    have key: "slot_key a = (slot_doctor_id slot, slot_date slot, slot_time slot)"
      using create_appointment_Inr(2,3,4) [OF cr] by (simp add: slot_key_def)
    have "appointments st' = appointments st1 @ [a]"
      using create_appointment_Inr(1) [OF cr] by simp
    then have "scheduled_keys (appointments st') = scheduled_keys (appointments st1) @ [slot_key a]"
      using create_appointment_Inr(5) [OF cr] by (simp add: scheduled_keys_def)
    with fresh key assms a1 have "no_double_booking st'"
      by (simp add: no_double_booking_def)
    with b show ?thesis by simp
  qed
qed

lemma keys_update_first:
  assumes "k \<in> set (scheduled_keys (update_first P f xs))"
  shows "k \<in> set (scheduled_keys xs)
       \<or> (\<exists>a. find P xs = Some a \<and> a_status (f a) = Scheduled \<and> k = slot_key (f a))"
  using assms by (induction xs) (auto simp: scheduled_keys_def split: if_splits)

lemma distinct_update_first:
  assumes "distinct (scheduled_keys xs)"
    and "\<And>a. find P xs = Some a \<Longrightarrow> a_status (f a) = Scheduled
           \<Longrightarrow> slot_key (f a) \<notin> set (scheduled_keys xs)"
  shows "distinct (scheduled_keys (update_first P f xs))"
  using assms
proof (induction xs)
  case Nil
  then show ?case by (simp add: scheduled_keys_def)
next
  case (Cons x xs)
  show ?case
  proof (cases "P x")
    case True
    with Cons.prems show ?thesis by (auto simp: scheduled_keys_def split: if_splits)
  next
    case False
    have d: "distinct (scheduled_keys xs)"
      using Cons.prems(1) by (auto simp: scheduled_keys_def split: if_splits)
    have fresh: "slot_key (f a) \<notin> set (scheduled_keys (x # xs))"
      if "find P xs = Some a" "a_status (f a) = Scheduled" for a
      using Cons.prems(2) [of a] that False by simp
    have ih: "distinct (scheduled_keys (update_first P f xs))"
    proof (rule Cons.IH [OF d])
      fix a assume "find P xs = Some a" "a_status (f a) = Scheduled"
      from fresh [OF this] show "slot_key (f a) \<notin> set (scheduled_keys xs)"
        by (auto simp: scheduled_keys_def split: if_splits)
    qed
    have "slot_key x \<notin> set (scheduled_keys (update_first P f xs))" if sx: "a_status x = Scheduled"
    proof
      assume "slot_key x \<in> set (scheduled_keys (update_first P f xs))"
      from keys_update_first [OF this] show False
      proof
        assume "slot_key x \<in> set (scheduled_keys xs)"
        with Cons.prems(1) sx show False by (simp add: scheduled_keys_def)
      next
        assume "\<exists>a. find P xs = Some a \<and> a_status (f a) = Scheduled \<and> slot_key x = slot_key (f a)"
        then obtain a where "find P xs = Some a" "a_status (f a) = Scheduled"
          "slot_key x = slot_key (f a)" by blast
        with fresh [of a] sx show False by (simp add: scheduled_keys_def)
      qed
    qed
    with False ih show ?thesis by (simp add: scheduled_keys_def)
  qed
qed

lemma cancel_preserves:
  assumes "no_double_booking st"
  shows "no_double_booking (fst (cancel_appointment st i reason))"
proof (cases "find (scheduled_with_id i) (appointments st)")
  case None
  with assms show ?thesis by (simp add: cancel_appointment_def)
next
  case (Some a)
  let ?f = "\<lambda>a. a\<lparr>a_status := Cancelled,
                  a_notes := (if reason \<noteq> [] then ''Cancelled: '' @ reason
                              else ''Cancelled by patient'')\<rparr>"
  have "distinct (scheduled_keys (update_first (scheduled_with_id i) ?f (appointments st)))"
    by (rule distinct_update_first) (use assms in \<open>simp_all add: no_double_booking_def\<close>)
  with Some show ?thesis
    by (simp add: cancel_appointment_def no_double_booking_def)
qed

lemma reschedule_preserves:
  assumes "no_double_booking st"
  shows "no_double_booking (fst (reschedule_appointment now st i d t))"
proof (cases "find (scheduled_with_id i) (appointments st)")
  case None
  with assms show ?thesis by (simp add: reschedule_appointment_def)
next
  case (Some a)
  show ?thesis
  proof (cases "is_slot_still_available st (a_doctor_id a) d t")
    case False
    with assms Some show ?thesis by (simp add: reschedule_appointment_def)
  next
    case True
    let ?f = "\<lambda>a. a\<lparr>a_date := d, a_time := t, a_notes := ''Rescheduled on '' @ now\<rparr>"
    have fresh: "(a_doctor_id a, d, t) \<notin> set (scheduled_keys (appointments st))"
      by (rule available_not_key [OF True])
    have "distinct (scheduled_keys (update_first (scheduled_with_id i) ?f (appointments st)))"
    proof (rule distinct_update_first)
      show "distinct (scheduled_keys (appointments st))"
        using assms by (simp add: no_double_booking_def)
    next
      fix b assume "find (scheduled_with_id i) (appointments st) = Some b"
      with Some have "b = a" by simp
      with fresh show "slot_key (?f b) \<notin> set (scheduled_keys (appointments st))"
        by (simp add: slot_key_def)
    qed
    with Some True show ?thesis
      by (simp add: reschedule_appointment_def no_double_booking_def)
  qed
qed

lemma reachable_no_double_booking: "reachable st \<Longrightarrow> no_double_booking st"
proof (induction rule: reachable.induct)
  case (init st)
  then show ?case by (simp add: no_double_booking_def scheduled_keys_def)
next
  case (book st today request)
  then show ?case by (simp add: book_preserves)
next
  case (cancel st appointment_id reason)
  then show ?case by (simp add: cancel_preserves)
next
  case (reschedule st now appointment_id new_date new_time)
  then show ?case by (simp add: reschedule_preserves)
next
  case (other_tables st ds ss sps ms ts)
  then show ?case by (simp add: no_double_booking_def)
qed


text \<open>
  C1. In every reachable store no two appointments with status scheduled have the same
  doctor id, date and time; booking (which rechecks the chosen slot with
  \<open>_is_slot_still_available\<close> before inserting), cancelling and rescheduling (which
  rechecks the new slot before changing the row) each preserve this when they are
  executed one after the other.
\<close>

theorem no_double_booking_invariant:
  "(reachable st \<longrightarrow> no_double_booking st)
   \<and> (no_double_booking st \<longrightarrow>
        no_double_booking (fst (book_appointment today st request))
      \<and> no_double_booking (fst (cancel_appointment st appointment_id reason))
      \<and> no_double_booking (fst (reschedule_appointment now st appointment_id new_date new_time)))"
  using reachable_no_double_booking [of st] book_preserves [of st today request]
    cancel_preserves [of st appointment_id reason]
    reschedule_preserves [of st now appointment_id new_date new_time]
  by blast

theorem no_double_booking_invariant_witness:
  "reachable dr_a_store \<and> no_double_booking dr_a_store \<and> no_double_booking dr_a_booked
   \<and> no_double_booking
        (fst (reschedule_appointment ''2024-01-01 09:00'' dr_a_booked 1 738893 66600))
   \<and> no_double_booking (fst (cancel_appointment dr_a_booked 1 []))"
proof -
  have r: "reachable dr_a_store"
    by (rule reachable.init) (simp add: dr_a_store_def)
  have n: "no_double_booking dr_a_booked"
    by (simp add: no_double_booking_def scheduled_keys_def dr_a_booked_def)
  show ?thesis
    using r n no_double_booking_invariant [of dr_a_store]
      no_double_booking_invariant [of dr_a_booked _ _ 1 "[]" "''2024-01-01 09:00''" 738893 66600]
    by blast
qed


section \<open>Evaluating the availability generator and the slot search\<close>

lemma date_loop_slots:
  "date_loop st doctor i scheds cur end_d acc =
     acc @ concat (map (day_slot_list st doctor i scheds) [cur .. end_d])"
proof (induction st doctor i scheds cur end_d acc rule: date_loop.induct)
  case (1 st doctor i scheds cur end_d acc)
  show ?case
  proof (cases "cur \<le> end_d")
    case False
    then show ?thesis by (subst date_loop.simps) simp
  next
    case True
    define acc' where "acc' = (case day_schedule scheds cur of
                None \<Rightarrow> acc
              | Some sched \<Rightarrow>
                  time_loop st doctor i cur (sch_start_time sched) (sch_end_time sched) acc)"
    have step: "date_loop st doctor i scheds cur end_d acc =
        date_loop st doctor i scheds (cur + 1) end_d acc'"
      unfolding acc'_def using True by (subst date_loop.simps) simp
    have ih: "date_loop st doctor i scheds (cur + 1) end_d acc' =
       acc' @ concat (map (day_slot_list st doctor i scheds) [cur + 1 .. end_d])"
      unfolding acc'_def by (rule 1 [OF True])
    have acc': "acc' = acc @ day_slot_list st doctor i scheds cur"
      unfolding acc'_def day_slot_list_def
      by (cases "day_schedule scheds cur") (simp_all add: time_loop_eq)
    have "date_loop st doctor i scheds cur end_d acc =
       acc' @ concat (map (day_slot_list st doctor i scheds) [cur + 1 .. end_d])"
      using step ih by (rule trans)
    then show ?thesis
      unfolding acc' upto_rec1 [OF True] by simp
  qed
qed

lemma availability_slots:
  "get_doctor_availability st i start_date days =
     (case get_doctor st i of
        None \<Rightarrow> []
      | Some doctor \<Rightarrow>
          concat (map (day_slot_list st doctor i (doctor_schedules st i))
                      [start_date .. start_date + days]))"
  by (simp add: get_doctor_availability_def date_loop_slots split: option.splits)

lemmas eval_availability =
  availability_slots day_slot_list_def day_schedule_def weekday_def doctor_schedules_def
  get_doctor_def rule_times_rec slot_open_def make_slot_def hhmm_def

lemma clinic_two_days: "get_doctor_availability clinic 1 738886 1 =
   map (\<lambda>t. \<lparr>slot_date = 738887, slot_time = t, slot_datetime = (738887, t), slot_doctor_id = 1,
      slot_doctor_name = ''Dr. Rahman'', slot_specialty = ''Cardiology''\<rparr>) [32400, 34200, 36000, 37800, 39600]"
  by (simp add: eval_availability clinic_def)

lemmas eval_strings = lower_def lower_char_def char_of_def bit_Suc_0_iff

lemmas eval_matcher =
  search_doctors_by_symptoms_def specialty_scores_def mapping_score_def sorted_specialties_def
  specialty_doctors_def doctor_dict_def eval_strings

lemma clinic_matcher: "search_doctors_by_symptoms clinic ''I have chest pain'' = [clinic_rahman]"
  by (simp add: eval_matcher clinic_def clinic_rahman_def)

lemma upt_14: "[0 ..< 14] = [0, 1, 2, 3, 4, 5, 6, 7, 8, 9, 10, 11, 12, 13]"
  by code_simp

lemmas eval_search =
  find_best_available_slot_def upt_14 is_slot_still_available_def existing_appointment_def
  blocked_slot_def total_seconds_def eval_availability

lemma clinic_search_monday: "map_option slot_datetime (find_best_available_slot clinic 738886 [clinic_rahman] (Some 738886) (Some 36000)) = Some (738887, 32400)"
  by (simp add: eval_search clinic_def clinic_rahman_def)

lemma clinic_search_evening: "find_best_available_slot clinic 738886 [clinic_rahman] None (Some 72000) = None"
  by (simp add: eval_search clinic_def clinic_rahman_def)


section \<open>Properties of the booking gates\<close>

lemma recommendation_eq:
  "recommendation (get_urgent_symptoms_check s) =
     get_urgency_recommendation (urgency_level (get_urgent_symptoms_check s))"
  by (simp add: get_urgent_symptoms_check_def Let_def split: prod.splits)

lemma gocp_fst:
  "get_or_create_patient st name phone =
     (fst (get_or_create_patient st name phone), snd (get_or_create_patient st name phone))"
  by simp

lemma gocp_ignores:
  "fst (get_or_create_patient (st\<lparr>schedules := ss, appointments := as, time_slots := ts\<rparr>) name phone)
     = (fst (get_or_create_patient st name phone))\<lparr>schedules := ss, appointments := as, time_slots := ts\<rparr>"
  by (simp add: get_or_create_patient_def Let_def split: option.splits)

lemma search_doctors_ignores:
  "search_doctors_by_symptoms (st\<lparr>schedules := ss, appointments := as, time_slots := ts\<rparr>) s
     = search_doctors_by_symptoms st s"
proof -
  have "specialty_doctors (st\<lparr>schedules := ss, appointments := as, time_slots := ts\<rparr>)
          = specialty_doctors st"
    by (rule ext) (simp add: specialty_doctors_def split: option.splits)
  then show ?thesis by (simp add: search_doctors_by_symptoms_def)
qed

lemma book_high:
  assumes "urgency_level (get_urgent_symptoms_check (rq_symptoms rq)) = High"
  shows "book_appointment today st rq =
     (fst (get_or_create_patient st (rq_patient_name rq) (rq_patient_phone rq)),
      if search_doctors_by_symptoms
           (fst (get_or_create_patient st (rq_patient_name rq) (rq_patient_phone rq)))
           (rq_symptoms rq) = []
      then failure No_suitable_doctors [] None
      else failure (Urgent (get_urgency_recommendation High))
             (map to_doctor (take 3 (search_doctors_by_symptoms
                (fst (get_or_create_patient st (rq_patient_name rq) (rq_patient_phone rq)))
                (rq_symptoms rq)))) None)"
  unfolding book_appointment_unfold [OF gocp_fst] using assms
  by (simp add: recommendation_eq)

lemma book_no_slot:
  assumes "search_doctors_by_symptoms
             (fst (get_or_create_patient st (rq_patient_name rq) (rq_patient_phone rq)))
             (rq_symptoms rq) \<noteq> []"
    and "urgency_level (get_urgent_symptoms_check (rq_symptoms rq)) \<noteq> High"
    and "find_best_available_slot
           (fst (get_or_create_patient st (rq_patient_name rq) (rq_patient_phone rq))) today
           (search_doctors_by_symptoms
              (fst (get_or_create_patient st (rq_patient_name rq) (rq_patient_phone rq)))
              (rq_symptoms rq))
           (rq_preferred_date rq) (rq_preferred_time rq) = None"
  shows "book_appointment today st rq =
     (fst (get_or_create_patient st (rq_patient_name rq) (rq_patient_phone rq)),
      failure No_immediate_availability
        (map to_doctor (take 3 (search_doctors_by_symptoms
           (fst (get_or_create_patient st (rq_patient_name rq) (rq_patient_phone rq)))
           (rq_symptoms rq))))
        (Some (alternative_slots
           (fst (get_or_create_patient st (rq_patient_name rq) (rq_patient_phone rq))) today
           (search_doctors_by_symptoms
              (fst (get_or_create_patient st (rq_patient_name rq) (rq_patient_phone rq)))
              (rq_symptoms rq)))))"
  unfolding book_appointment_unfold [OF gocp_fst] using assms by simp

lemma clinic_patient:
  "get_or_create_patient clinic ''John Smith'' ''+8801234567890'' =
     (clinic, \<lparr>p_id = 1, p_name = ''John Smith'', p_phone = ''+8801234567890''\<rparr>)"
  by (simp add: get_or_create_patient_def clinic_def)

lemma emergency_is_high: "urgency_level (get_urgent_symptoms_check ''emergency'') = High"
  by code_simp

lemma chest_pain_not_high:
  "urgency_level (get_urgent_symptoms_check ''I have chest pain'') \<noteq> High"
  by code_simp

lemma severe_is_high: "urgency_level (get_urgent_symptoms_check ''severe chest pain'') = High"
  by code_simp

lemma clinic_severe: "search_doctors_by_symptoms clinic ''severe chest pain'' = [clinic_rahman]"
  by (simp add: eval_matcher clinic_def clinic_rahman_def)

lemma clinic_no_match: "search_doctors_by_symptoms clinic ''emergency'' = []"
  by (simp add: eval_matcher clinic_def)

lemma clinic_alternatives:
  "alternative_slots clinic 738886 [clinic_rahman] =
     map (clinic_slot 738887) [32400, 34200, 36000, 37800, 39600]"
  by (simp add: alternative_slots_def eval_availability clinic_def clinic_rahman_def
        clinic_slot_def)

lemma clinic_search_monday_slot:
  "find_best_available_slot clinic 738886 [clinic_rahman] (Some 738886) (Some 36000)
     = Some (clinic_slot 738887 32400)"
  by (simp add: eval_search clinic_def clinic_rahman_def clinic_slot_def)

lemma availability_dates:
  assumes "s \<in> set (get_doctor_availability st i d n)"
  shows "d \<le> slot_date s \<and> slot_date s \<le> d + n"
proof -
  from availability_slot_fields [OF assms] obtain doctor where
    s: "s = make_slot doctor i (fst (slot_datetime s)) (snd (slot_datetime s))" by blast
  have "slot_date s = slot_date (make_slot doctor i (fst (slot_datetime s)) (snd (slot_datetime s)))"
    using s by simp
  then have sd: "slot_date s = fst (slot_datetime s)" by (simp add: make_slot_def)
  have "slot_datetime s \<in> set (map slot_datetime (get_doctor_availability st i d n))"
    using assms by simp
  then have "slot_datetime s \<in> set (spec_availability st i d n)"
    unfolding availability_datetimes by (simp split: if_splits)
  then have "d \<le> fst (slot_datetime s) \<and> fst (slot_datetime s) \<le> d + n"
    unfolding spec_availability_def by (rule set_concat_days)
  with sd show ?thesis by simp
qed

text \<open>
  C5, as the code has it. For every book request whose symptom text the urgency
  classifier rates high, book returns an unsuccessful result without any slot search
  (the result is the same whatever the schedules, blocked slots and appointments are),
  without an appointment and without a serial number, and the appointments of the store
  are unchanged. The result is the emergency redirect, with up to three suggested doctors,
  when the symptom matcher finds at least one doctor; when it finds none, the check for
  that comes first and the result is the no-suitable-doctor one.
\<close>

theorem high_urgency_blocks_booking:
  assumes "urgency_level (get_urgent_symptoms_check (rq_symptoms rq)) = High"
  shows "\<not> rs_success (snd (book_appointment today st rq))
       \<and> rs_appointment (snd (book_appointment today st rq)) = None
       \<and> rs_available_slots (snd (book_appointment today st rq)) = None
       \<and> appointments (fst (book_appointment today st rq)) = appointments st
       \<and> snd (book_appointment today (st\<lparr>schedules := ss, appointments := as, time_slots := ts\<rparr>) rq)
           = snd (book_appointment today st rq)
       \<and> snd (book_appointment today st rq) =
           (if search_doctors_by_symptoms
                 (fst (get_or_create_patient st (rq_patient_name rq) (rq_patient_phone rq)))
                 (rq_symptoms rq) = []
            then failure No_suitable_doctors [] None
            else failure (Urgent (get_urgency_recommendation High))
                   (map to_doctor (take 3 (search_doctors_by_symptoms
                      (fst (get_or_create_patient st (rq_patient_name rq) (rq_patient_phone rq)))
                      (rq_symptoms rq)))) None)"
proof -
  have a: "appointments (fst (get_or_create_patient st (rq_patient_name rq) (rq_patient_phone rq)))
             = appointments st"
    by (rule gocp_other_tables(1) [OF gocp_fst])
  show ?thesis
    unfolding book_high [OF assms] using a
    by (simp add: gocp_ignores search_doctors_ignores)
qed

theorem high_urgency_blocks_booking_witness:
  "urgency_level (get_urgent_symptoms_check ''severe chest pain'') = High
   \<and> snd (book_appointment 738886 clinic (clinic_request ''severe chest pain'' None None))
       = failure (Urgent ''Please seek immediate emergency care or call emergency services.'')
           [\<lparr>d_id = 1, d_name = ''Dr. Rahman'', d_specialty = ''Cardiology''\<rparr>] None
   \<and> appointments
        (fst (book_appointment 738886 clinic (clinic_request ''severe chest pain'' None None)))
       = []"
proof -
  have h: "urgency_level (get_urgent_symptoms_check
             (rq_symptoms (clinic_request ''severe chest pain'' None None))) = High"
    by (simp add: clinic_request_def severe_is_high)
  have p: "fst (get_or_create_patient clinic
             (rq_patient_name (clinic_request ''severe chest pain'' None None))
             (rq_patient_phone (clinic_request ''severe chest pain'' None None))) = clinic"
    by (simp add: clinic_request_def clinic_patient)
  have s: "rq_symptoms (clinic_request ''severe chest pain'' None None) = ''severe chest pain''"
    by (simp add: clinic_request_def)
  have e: "appointments clinic = []" by (simp add: clinic_def)
  show ?thesis
    using high_urgency_blocks_booking [OF h, of 738886 clinic] severe_is_high
    unfolding p s clinic_severe e
    by (simp add: to_doctor_def clinic_rahman_def get_urgency_recommendation_def)
qed

text \<open>
  C5 as stated fails: the text "emergency" is rated high, the clinic's catalogue matches
  no doctor for it, and book answers with the no-suitable-doctor result, not with the
  emergency redirect.
\<close>

theorem high_urgency_counterexample:
  "urgency_level (get_urgent_symptoms_check ''emergency'') = High
   \<and> rs_message (snd (book_appointment 738886 clinic (clinic_request ''emergency'' None None)))
       = No_suitable_doctors"
proof -
  have h: "urgency_level (get_urgent_symptoms_check
             (rq_symptoms (clinic_request ''emergency'' None None))) = High"
    by (simp add: clinic_request_def emergency_is_high)
  have p: "fst (get_or_create_patient clinic
             (rq_patient_name (clinic_request ''emergency'' None None))
             (rq_patient_phone (clinic_request ''emergency'' None None))) = clinic"
    by (simp add: clinic_request_def clinic_patient)
  have s: "rq_symptoms (clinic_request ''emergency'' None None) = ''emergency''"
    by (simp add: clinic_request_def)
  show ?thesis
    unfolding book_high [OF h] p s clinic_no_match using emergency_is_high by simp
qed

text \<open>
  C7, as the code has it. When a preferred time is set, the slot allocator accepts a slot
  only if the slot passes the recheck and its date and time lie within 7200 seconds of the
  preferred time on the date being searched; that search date runs over the 14 days from
  the preferred date (from today when none is given), and the accepted slot is on the
  search date or the day after, so its date need not be the preferred date. Every slot
  outside the window is skipped: the scan of a day's slots returns the first one that
  passes the recheck and lies in the window.
\<close>

theorem preferred_time_window:
  assumes "find_best_available_slot st today docs preferred_date (Some preferred_time) = Some slot"
  shows "(\<exists>k < 14. \<exists>di \<in> set (take 5 docs).
            slot \<in> set (get_doctor_availability st (di_id di)
                          (search_start today preferred_date + int k) 1)
          \<and> is_slot_still_available st (di_id di) (slot_date slot) (slot_time slot)
          \<and> \<bar>total_seconds (slot_date slot, slot_time slot)
                (search_start today preferred_date + int k, preferred_time)\<bar> \<le> 7200
          \<and> (slot_date slot = search_start today preferred_date + int k
              \<or> slot_date slot = search_start today preferred_date + int k + 1))
       \<and> scan_slots st doctor_id search_date (Some preferred_time) slots =
           find (\<lambda>s. is_slot_still_available st doctor_id (slot_date s) (slot_time s)
                    \<and> \<bar>total_seconds (slot_date s, slot_time s) (search_date, preferred_time)\<bar>
                        \<le> 7200) slots"
proof -
  from find_best_Some [OF assms] obtain k and di :: doctor_info where k: "k < 14"
    and di: "di \<in> set (take 5 docs)"
    and mem: "slot \<in> set (get_doctor_availability st (di_id di)
                            (search_start today preferred_date + int k) 1)"
    and av: "is_slot_still_available st (di_id di) (slot_date slot) (slot_time slot)"
    and win: "\<bar>total_seconds (slot_date slot, slot_time slot)
                (search_start today preferred_date + int k, preferred_time)\<bar> \<le> 7200"
    by auto
  from availability_dates [OF mem]
  have "slot_date slot = search_start today preferred_date + int k
        \<or> slot_date slot = search_start today preferred_date + int k + 1" by arith
  with k di mem av win have first:
    "\<exists>k < 14. \<exists>di \<in> set (take 5 docs).
            slot \<in> set (get_doctor_availability st (di_id di)
                          (search_start today preferred_date + int k) 1)
          \<and> is_slot_still_available st (di_id di) (slot_date slot) (slot_time slot)
          \<and> \<bar>total_seconds (slot_date slot, slot_time slot)
                (search_start today preferred_date + int k, preferred_time)\<bar> \<le> 7200
          \<and> (slot_date slot = search_start today preferred_date + int k
              \<or> slot_date slot = search_start today preferred_date + int k + 1)"
    by blast
  have second: "scan_slots st doctor_id search_date (Some preferred_time) slots =
           find (\<lambda>s. is_slot_still_available st doctor_id (slot_date s) (slot_time s)
                    \<and> \<bar>total_seconds (slot_date s, slot_time s) (search_date, preferred_time)\<bar>
                        \<le> 7200) slots"
    by (simp add: scan_slots_find)
  from first second show ?thesis by (rule conjI)
qed

theorem preferred_time_window_witness:
  "\<exists>k < 14. \<exists>di \<in> set (take 5 [clinic_rahman]).
      clinic_slot 738887 32400
        \<in> set (get_doctor_availability clinic (di_id di) (738886 + int k) 1)
    \<and> is_slot_still_available clinic (di_id di) 738887 32400
    \<and> \<bar>total_seconds (738887, 32400) (738886 + int k, 36000)\<bar> \<le> 7200
    \<and> (738887 = 738886 + int k \<or> 738887 = 738886 + int k + 1)"
  using preferred_time_window [OF clinic_search_monday_slot]
  by (simp add: search_start_def clinic_slot_def)

text \<open>
  C7 as stated fails: with preferred date Monday 2024-01-01 (day 738886) and preferred
  time 10:00, the allocator accepts the cardiologist's slot on Tuesday 2024-01-02, a date
  that is not the preferred date.
\<close>

theorem preferred_date_counterexample:
  "map_option slot_date
     (find_best_available_slot clinic 738886
        (search_doctors_by_symptoms clinic ''I have chest pain'') (Some 738886) (Some 36000))
     = Some 738887"
  unfolding clinic_matcher clinic_search_monday_slot by (simp add: clinic_slot_def)

text \<open>
  C8, as the code has it. When the symptom matcher finds a doctor, the urgency is not high
  and the slot allocator's 14-day search accepts no slot, book returns an unsuccessful
  result whose alternative slots are gathered as up to 5 slots (the first of the next 14
  days) for each of the first 3 candidate doctors, cut to at most 10 slots in total.
\<close>

theorem no_availability_alternatives:
  assumes "search_doctors_by_symptoms
             (fst (get_or_create_patient st (rq_patient_name rq) (rq_patient_phone rq)))
             (rq_symptoms rq) \<noteq> []"
    and "urgency_level (get_urgent_symptoms_check (rq_symptoms rq)) \<noteq> High"
    and "find_best_available_slot
           (fst (get_or_create_patient st (rq_patient_name rq) (rq_patient_phone rq))) today
           (search_doctors_by_symptoms
              (fst (get_or_create_patient st (rq_patient_name rq) (rq_patient_phone rq)))
              (rq_symptoms rq))
           (rq_preferred_date rq) (rq_preferred_time rq) = None"
  shows "\<not> rs_success (snd (book_appointment today st rq))
       \<and> rs_message (snd (book_appointment today st rq)) = No_immediate_availability
       \<and> rs_available_slots (snd (book_appointment today st rq)) =
           Some (take 10 (concat (map
             (\<lambda>di. take 5 (get_doctor_availability
                (fst (get_or_create_patient st (rq_patient_name rq) (rq_patient_phone rq)))
                (di_id di) today 14))
             (take 3 (search_doctors_by_symptoms
                (fst (get_or_create_patient st (rq_patient_name rq) (rq_patient_phone rq)))
                (rq_symptoms rq))))))
       \<and> length (the (rs_available_slots (snd (book_appointment today st rq)))) \<le> 10"
  unfolding book_no_slot [OF assms] by (simp add: alternative_slots_def)

theorem no_availability_alternatives_witness:
  "rs_available_slots
     (snd (book_appointment 738886 clinic (clinic_request ''I have chest pain'' None (Some 72000))))
     = Some (map (clinic_slot 738887) [32400, 34200, 36000, 37800, 39600])"
proof -
  let ?rq = "clinic_request ''I have chest pain'' None (Some 72000)"
  have p: "fst (get_or_create_patient clinic (rq_patient_name ?rq) (rq_patient_phone ?rq)) = clinic"
    by (simp add: clinic_request_def clinic_patient)
  have s: "rq_symptoms ?rq = ''I have chest pain''" "rq_preferred_date ?rq = None"
    "rq_preferred_time ?rq = Some 72000"
    by (simp_all add: clinic_request_def)
  have a1: "search_doctors_by_symptoms
             (fst (get_or_create_patient clinic (rq_patient_name ?rq) (rq_patient_phone ?rq)))
             (rq_symptoms ?rq) \<noteq> []"
    unfolding p s clinic_matcher by simp
  have a2: "urgency_level (get_urgent_symptoms_check (rq_symptoms ?rq)) \<noteq> High"
    unfolding s by (rule chest_pain_not_high)
  have a3: "find_best_available_slot
           (fst (get_or_create_patient clinic (rq_patient_name ?rq) (rq_patient_phone ?rq))) 738886
           (search_doctors_by_symptoms
              (fst (get_or_create_patient clinic (rq_patient_name ?rq) (rq_patient_phone ?rq)))
              (rq_symptoms ?rq))
           (rq_preferred_date ?rq) (rq_preferred_time ?rq) = None"
    unfolding p s clinic_matcher by (rule clinic_search_evening)
  have alt: "take 10 (concat (map (\<lambda>di. take 5 (get_doctor_availability clinic (di_id di) 738886 14))
                (take 3 [clinic_rahman])))
             = map (clinic_slot 738887) [32400, 34200, 36000, 37800, 39600]"
    using clinic_alternatives by (simp add: alternative_slots_def)
  show ?thesis
    using no_availability_alternatives [OF a1 a2 a3]
    unfolding p s clinic_matcher alt by simp
qed

text \<open>
  C8 as stated fails: the clinic's only candidate doctor contributes five alternative
  slots, more than three.
\<close>

theorem alternatives_counterexample:
  "map slot_doctor_id
     (the (rs_available_slots
        (snd (book_appointment 738886 clinic
                (clinic_request ''I have chest pain'' None (Some 72000))))))
     = [1, 1, 1, 1, 1]"
proof -
  let ?rq = "clinic_request ''I have chest pain'' None (Some 72000)"
  have p: "fst (get_or_create_patient clinic (rq_patient_name ?rq) (rq_patient_phone ?rq)) = clinic"
    by (simp add: clinic_request_def clinic_patient)
  have s: "rq_symptoms ?rq = ''I have chest pain''" "rq_preferred_date ?rq = None"
    "rq_preferred_time ?rq = Some 72000"
    by (simp_all add: clinic_request_def)
  have a1: "search_doctors_by_symptoms
             (fst (get_or_create_patient clinic (rq_patient_name ?rq) (rq_patient_phone ?rq)))
             (rq_symptoms ?rq) \<noteq> []"
    unfolding p s clinic_matcher by simp
  have a2: "urgency_level (get_urgent_symptoms_check (rq_symptoms ?rq)) \<noteq> High"
    unfolding s by (rule chest_pain_not_high)
  have a3: "find_best_available_slot
           (fst (get_or_create_patient clinic (rq_patient_name ?rq) (rq_patient_phone ?rq))) 738886
           (search_doctors_by_symptoms
              (fst (get_or_create_patient clinic (rq_patient_name ?rq) (rq_patient_phone ?rq)))
              (rq_symptoms ?rq))
           (rq_preferred_date ?rq) (rq_preferred_time ?rq) = None"
    unfolding p s clinic_matcher by (rule clinic_search_evening)
  show ?thesis
    unfolding book_no_slot [OF a1 a2 a3] p s clinic_matcher clinic_alternatives
    by (simp add: clinic_slot_def)
qed


section \<open>Weekly rules and rescheduling\<close>

text \<open>
  C4 fails on the code. Dr. A has one rule, Monday 18:00 to 20:00, and one scheduled
  appointment in it. Rescheduling that appointment to Sunday 2024-01-07 (day 738892) at
  03:00 succeeds, since the new slot is neither booked nor blocked, and leaves a scheduled
  appointment outside every weekly rule of its doctor.
\<close>

theorem reschedule_leaves_weekly_rule:
  "respects_schedules dr_a_booked
   \<and> snd (reschedule_appointment ''2024-01-01 09:00'' dr_a_booked 1 738892 10800) = Done
   \<and> map a_status
        (appointments (fst (reschedule_appointment ''2024-01-01 09:00'' dr_a_booked 1 738892 10800)))
       = [Scheduled]
   \<and> \<not> respects_schedules
          (fst (reschedule_appointment ''2024-01-01 09:00'' dr_a_booked 1 738892 10800))"
  by (simp add: respects_schedules_def in_weekly_rule_def reschedule_appointment_def
        is_slot_still_available_def existing_appointment_def blocked_slot_def
        scheduled_with_id_def doctor_schedules_def sunday_weekday_def dr_a_booked_def
        dr_a_store_def)


section \<open>Properties of the patient's appointment list\<close>

lemma appointment_views_eq:
  assumes "list_all (\<lambda>b. get_doctor st (a_doctor_id b) \<noteq> None) xs"
  shows "appointment_views st xs = Some (map (view_of st) xs)"
  using assms by (induction xs) (auto simp: view_of_def)

lemma hd_sort_key_least:
  assumes "x \<in> set xs" and "\<And>y. y \<in> set xs \<Longrightarrow> y \<noteq> x \<Longrightarrow> f x < f y"
  shows "hd (sort_key f xs) = x"
proof (rule ccontr)
  let ?ys = "sort_key f xs"
  assume ne: "hd ?ys \<noteq> x"
  have x: "x \<in> set ?ys" using assms(1) by simp
  then have nonempty: "?ys \<noteq> []" by (metis empty_iff empty_set)
  then have ys: "?ys = hd ?ys # tl ?ys" by simp
  have "hd ?ys \<in> set xs" using nonempty hd_in_set [of ?ys] by simp
  then have lt: "f x < f (hd ?ys)" using ne assms(2) by blast
  have "sorted (map f (hd ?ys # tl ?ys))" using ys sorted_sort_key [of f xs] by simp
  moreover have "x \<in> set (tl ?ys)" using x ne ys by (metis set_ConsD)
  ultimately have "f (hd ?ys) \<le> f x" by auto
  with lt show False by simp
qed

lemma get_patient_appointments_eq:
  assumes "find (\<lambda>p. p_phone p = phone) (patients st) = Some patient"
    and "list_all (\<lambda>b. get_doctor st (a_doctor_id b) \<noteq> None)
           (filter (\<lambda>a. a_patient_id a = p_id patient) (appointments st))"
  shows "get_patient_appointments st phone =
           map (view_of st) (sort_key (\<lambda>a. - a_date a)
              (filter (\<lambda>a. a_patient_id a = p_id patient) (appointments st)))"
proof -
  have "list_all (\<lambda>b. get_doctor st (a_doctor_id b) \<noteq> None)
          (sort_key (\<lambda>a. - a_date a)
             (filter (\<lambda>a. a_patient_id a = p_id patient) (appointments st)))"
    using assms(2) unfolding list_all_iff by simp
  from appointment_views_eq [OF this] assms(1) show ?thesis
    by (simp add: get_patient_appointments_def)
qed

lemma book_success:
  assumes b: "book_appointment today st rq = (st', resp)" and s: "rs_success resp"
  obtains patient and slot :: slot and a doctor where
    "find (\<lambda>p. p_phone p = rq_patient_phone rq) (patients st') = Some patient"
    "appointments st' = appointments st @ [a]" "doctors st' = doctors st"
    "a_patient_id a = p_id patient" "a_doctor_id a = slot_doctor_id slot"
    "get_doctor st' (a_doctor_id a) = Some doctor" "rs_appointment resp = Some a"
    "a_status a = Scheduled" "a_id a = next_id (map a_id (appointments st))"
    "generate_serial_number
       (fst (get_or_create_patient st (rq_patient_name rq) (rq_patient_phone rq)))
       = Inr (a_serial_number a)"
proof -
  obtain st1 patient where g:
    "get_or_create_patient st (rq_patient_name rq) (rq_patient_phone rq) = (st1, patient)"
    by (cases "get_or_create_patient st (rq_patient_name rq) (rq_patient_phone rq)")
  from book_appointment_outcome [OF b g] s obtain slot :: slot and a doctor where
    cr: "create_appointment st1 (p_id patient) (slot_doctor_id slot) (slot_date slot)
               (slot_time slot) (rq_symptoms rq) (rq_booking_channel rq) = Inr (st', a)"
    and d: "get_doctor st' (slot_doctor_id slot) = Some doctor"
    and r: "resp = \<lparr>rs_success = True, rs_appointment = Some a,
                     rs_message = Appointment_confirmed,
                     rs_suggested_doctors = [doctor], rs_available_slots = None\<rparr>"
    by blast
  note c = create_appointment_Inr [OF cr]
  have st': "st' = st1\<lparr>appointments := appointments st1 @ [a]\<rparr>" by (rule c(1))
  have 1: "find (\<lambda>p. p_phone p = rq_patient_phone rq) (patients st') = Some patient"
    using gocp_patient [OF g] st' by simp
  have 2: "appointments st' = appointments st @ [a]"
    using st' gocp_other_tables(1) [OF g] by simp
  have 3: "doctors st' = doctors st"
    using st' gocp_other_tables(2) [OF g] by simp
  have 4: "a_id a = next_id (map a_id (appointments st))"
    using c(7) gocp_other_tables(1) [OF g] by simp
  have 5: "generate_serial_number
       (fst (get_or_create_patient st (rq_patient_name rq) (rq_patient_phone rq)))
       = Inr (a_serial_number a)"
    using c(8) g by simp
  show thesis
    using that [OF 1 2 3 c(6) c(2) _ _ c(5) 4 5] d r c(2) by simp
qed

text \<open>
  C10, as the code has it. After a successful booking for the phone number P, in a store
  whose appointments all name existing doctors, the list of P's appointments is not empty,
  is ordered by appointment date, latest first, and contains the appointment just booked;
  that appointment is the first entry when its date is later than the date of every other
  appointment of the patient.
\<close>

theorem booked_appointment_listed:
  assumes "book_appointment today st rq = (st', resp)"
    and "rs_success resp"
    and "list_all (\<lambda>b. get_doctor st (a_doctor_id b) \<noteq> None) (appointments st)"
  shows "\<exists>a. rs_appointment resp = Some a
       \<and> get_patient_appointments st' (rq_patient_phone rq) \<noteq> []
       \<and> view_of st' a \<in> set (get_patient_appointments st' (rq_patient_phone rq))
       \<and> sorted (map (\<lambda>v. - v_date v) (get_patient_appointments st' (rq_patient_phone rq)))
       \<and> (list_all (\<lambda>b. a_patient_id b = a_patient_id a \<longrightarrow> a_date b < a_date a)
             (appointments st)
           \<longrightarrow> hd (get_patient_appointments st' (rq_patient_phone rq)) = view_of st' a)"
proof -
  from book_success [OF assms(1,2)] obtain patient and slot :: slot and a doctor where
    p: "find (\<lambda>p. p_phone p = rq_patient_phone rq) (patients st') = Some patient"
    and ap: "appointments st' = appointments st @ [a]" and ds: "doctors st' = doctors st"
    and pid: "a_patient_id a = p_id patient"
    and d: "get_doctor st' (a_doctor_id a) = Some doctor"
    and r: "rs_appointment resp = Some a"
    by metis
  let ?mine = "filter (\<lambda>b. a_patient_id b = p_id patient) (appointments st)"
  let ?sorted = "sort_key (\<lambda>a. - a_date a) (?mine @ [a])"
  have same: "get_doctor st' i = get_doctor st i" for i
    using ds by (simp add: get_doctor_def)
  have mine': "filter (\<lambda>b. a_patient_id b = p_id patient) (appointments st') = ?mine @ [a]"
    using ap pid by simp
  have "list_all (\<lambda>b. get_doctor st' (a_doctor_id b) \<noteq> None) (?mine @ [a])"
    using assms(3) d unfolding list_all_iff same by auto
  then have eq: "get_patient_appointments st' (rq_patient_phone rq) = map (view_of st') ?sorted"
    using get_patient_appointments_eq [OF p] mine' by simp
  have mem: "a \<in> set ?sorted" by simp
  then have nonempty: "?sorted \<noteq> []" by (metis empty_iff empty_set)
  have listed: "view_of st' a \<in> set (map (view_of st') ?sorted)" using mem by simp
  have "map (\<lambda>v. - v_date v) (map (view_of st') ?sorted) = map (\<lambda>a. - a_date a) ?sorted"
    by (simp add: view_of_def comp_def)
  then have srt: "sorted (map (\<lambda>v. - v_date v) (map (view_of st') ?sorted))"
    by (simp only: sorted_sort_key)
  have first: "hd (map (view_of st') ?sorted) = view_of st' a"
    if later: "list_all (\<lambda>b. a_patient_id b = a_patient_id a \<longrightarrow> a_date b < a_date a)
                 (appointments st)"
  proof -
    have "hd ?sorted = a"
    proof (rule hd_sort_key_least)
      show "a \<in> set (?mine @ [a])" by simp
    next
      fix y assume "y \<in> set (?mine @ [a])" "y \<noteq> a"
      then have "y \<in> set (appointments st)" "a_patient_id y = a_patient_id a"
        using pid by auto
      with later have "a_date y < a_date a" unfolding list_all_iff by blast
      then show "- a_date a < - a_date y" by simp
    qed
    with nonempty show ?thesis by (simp add: hd_map)
  qed
  from r nonempty listed srt first show ?thesis unfolding eq by auto
qed


section \<open>Evaluating a booking\<close>

lemma book_slot:
  assumes "get_or_create_patient st (rq_patient_name rq) (rq_patient_phone rq) = (st1, patient)"
    and "search_doctors_by_symptoms st1 (rq_symptoms rq) = docs" and "docs \<noteq> []"
    and "urgency_level (get_urgent_symptoms_check (rq_symptoms rq)) \<noteq> High"
    and "find_best_available_slot st1 today docs (rq_preferred_date rq) (rq_preferred_time rq)
           = Some slot"
    and "create_appointment st1 (p_id patient) (slot_doctor_id slot) (slot_date slot)
           (slot_time slot) (rq_symptoms rq) (rq_booking_channel rq) = Inr (st2, a)"
    and "get_doctor st2 (slot_doctor_id slot) = Some doctor"
  shows "book_appointment today st rq = (st2, confirmed a doctor)"
  unfolding book_appointment_unfold [OF assms(1)] using assms(2-7)
  by (simp add: confirmed_def)

lemma replicate_small: "replicate 2 c = [c, c]" "replicate 1 c = [c]"
  by (simp_all add: numeral_2_eq_2)

lemmas eval_serial = Let_def replicate_small
  create_appointment_def generate_serial_number_def last_appointment_def py_int_def
  py_strip_def is_py_space_def parse_nat_def is_digit_def digit_val_def format_03d_def
  zero_pad_def dec.simps next_id_def char_of_def bit_Suc_0_iff

lemma clinic_returning_patient:
  "get_or_create_patient clinic_returning ''John Smith'' ''+8801234567890'' =
     (clinic_returning, \<lparr>p_id = 1, p_name = ''John Smith'', p_phone = ''+8801234567890''\<rparr>)"
  by (simp add: get_or_create_patient_def clinic_returning_def clinic_def)

lemma clinic_returning_matcher:
  "search_doctors_by_symptoms clinic_returning ''I have chest pain'' = [clinic_rahman]"
  by (simp add: eval_matcher clinic_returning_def clinic_def clinic_rahman_def)

lemma clinic_search_first:
  "find_best_available_slot clinic 738886 [clinic_rahman] None None
     = Some (clinic_slot 738887 32400)"
  by (simp add: eval_search clinic_def clinic_rahman_def clinic_slot_def)

lemma clinic_returning_search_first:
  "find_best_available_slot clinic_returning 738886 [clinic_rahman] None None
     = Some (clinic_slot 738887 32400)"
  by (simp add: eval_search clinic_returning_def clinic_def clinic_rahman_def clinic_slot_def)

lemma clinic_create:
  "create_appointment clinic 1 1 738887 32400 ''I have chest pain'' Chat
     = Inr (clinic\<lparr>appointments := [clinic_apt 1 ''XH001'']\<rparr>, clinic_apt 1 ''XH001'')"
  by (simp add: eval_serial clinic_def clinic_apt_def)

lemma clinic_returning_create:
  "create_appointment clinic_returning 1 1 738887 32400 ''I have chest pain'' Chat
     = Inr (clinic_returning\<lparr>appointments :=
                appointments clinic_returning @ [clinic_apt 2 ''XH002'']\<rparr>,
            clinic_apt 2 ''XH002'')"
  by (simp add: eval_serial clinic_returning_def clinic_def clinic_apt_def)

lemma clinic_book:
  "book_appointment 738886 clinic (clinic_request ''I have chest pain'' None None) =
     (clinic\<lparr>appointments := [clinic_apt 1 ''XH001'']\<rparr>,
      confirmed (clinic_apt 1 ''XH001'')
        \<lparr>d_id = 1, d_name = ''Dr. Rahman'', d_specialty = ''Cardiology''\<rparr>)"
proof (rule book_slot)
  let ?rq = "clinic_request ''I have chest pain'' None None"
  show "get_or_create_patient clinic (rq_patient_name ?rq) (rq_patient_phone ?rq) =
          (clinic, \<lparr>p_id = 1, p_name = ''John Smith'', p_phone = ''+8801234567890''\<rparr>)"
    by (simp add: clinic_request_def clinic_patient)
  show "search_doctors_by_symptoms clinic (rq_symptoms ?rq) = [clinic_rahman]"
    by (simp add: clinic_request_def clinic_matcher)
  show "[clinic_rahman] \<noteq> []" by simp
  show "urgency_level (get_urgent_symptoms_check (rq_symptoms ?rq)) \<noteq> High"
    by (simp add: clinic_request_def chest_pain_not_high)
  show "find_best_available_slot clinic 738886 [clinic_rahman] (rq_preferred_date ?rq)
          (rq_preferred_time ?rq) = Some (clinic_slot 738887 32400)"
    by (simp add: clinic_request_def clinic_search_first)
  show "create_appointment clinic
          (p_id \<lparr>p_id = 1, p_name = ''John Smith'', p_phone = ''+8801234567890''\<rparr>)
          (slot_doctor_id (clinic_slot 738887 32400)) (slot_date (clinic_slot 738887 32400))
          (slot_time (clinic_slot 738887 32400)) (rq_symptoms ?rq) (rq_booking_channel ?rq)
        = Inr (clinic\<lparr>appointments := [clinic_apt 1 ''XH001'']\<rparr>, clinic_apt 1 ''XH001'')"
    using clinic_create by (simp add: clinic_request_def clinic_slot_def)
  show "get_doctor (clinic\<lparr>appointments := [clinic_apt 1 ''XH001'']\<rparr>)
          (slot_doctor_id (clinic_slot 738887 32400))
        = Some \<lparr>d_id = 1, d_name = ''Dr. Rahman'', d_specialty = ''Cardiology''\<rparr>"
    by (simp add: get_doctor_def clinic_def clinic_slot_def)
qed

lemma clinic_returning_book:
  "book_appointment 738886 clinic_returning (clinic_request ''I have chest pain'' None None) =
     (clinic_returning\<lparr>appointments :=
        appointments clinic_returning @ [clinic_apt 2 ''XH002'']\<rparr>,
      confirmed (clinic_apt 2 ''XH002'')
        \<lparr>d_id = 1, d_name = ''Dr. Rahman'', d_specialty = ''Cardiology''\<rparr>)"
proof (rule book_slot)
  let ?rq = "clinic_request ''I have chest pain'' None None"
  show "get_or_create_patient clinic_returning (rq_patient_name ?rq) (rq_patient_phone ?rq) =
          (clinic_returning,
           \<lparr>p_id = 1, p_name = ''John Smith'', p_phone = ''+8801234567890''\<rparr>)"
    by (simp add: clinic_request_def clinic_returning_patient)
  show "search_doctors_by_symptoms clinic_returning (rq_symptoms ?rq) = [clinic_rahman]"
    by (simp add: clinic_request_def clinic_returning_matcher)
  show "[clinic_rahman] \<noteq> []" by simp
  show "urgency_level (get_urgent_symptoms_check (rq_symptoms ?rq)) \<noteq> High"
    by (simp add: clinic_request_def chest_pain_not_high)
  show "find_best_available_slot clinic_returning 738886 [clinic_rahman]
          (rq_preferred_date ?rq) (rq_preferred_time ?rq) = Some (clinic_slot 738887 32400)"
    by (simp add: clinic_request_def clinic_returning_search_first)
  show "create_appointment clinic_returning
          (p_id \<lparr>p_id = 1, p_name = ''John Smith'', p_phone = ''+8801234567890''\<rparr>)
          (slot_doctor_id (clinic_slot 738887 32400)) (slot_date (clinic_slot 738887 32400))
          (slot_time (clinic_slot 738887 32400)) (rq_symptoms ?rq) (rq_booking_channel ?rq)
        = Inr (clinic_returning\<lparr>appointments :=
                 appointments clinic_returning @ [clinic_apt 2 ''XH002'']\<rparr>,
               clinic_apt 2 ''XH002'')"
    using clinic_returning_create by (simp add: clinic_request_def clinic_slot_def)
  show "get_doctor (clinic_returning\<lparr>appointments :=
                 appointments clinic_returning @ [clinic_apt 2 ''XH002'']\<rparr>)
          (slot_doctor_id (clinic_slot 738887 32400))
        = Some \<lparr>d_id = 1, d_name = ''Dr. Rahman'', d_specialty = ''Cardiology''\<rparr>"
    by (simp add: get_doctor_def clinic_returning_def clinic_def clinic_slot_def)
qed

theorem booked_appointment_listed_witness:
  "get_patient_appointments (clinic\<lparr>appointments := [clinic_apt 1 ''XH001'']\<rparr>)
     ''+8801234567890'' \<noteq> []
   \<and> hd (get_patient_appointments (clinic\<lparr>appointments := [clinic_apt 1 ''XH001'']\<rparr>)
          ''+8801234567890'')
       = view_of (clinic\<lparr>appointments := [clinic_apt 1 ''XH001'']\<rparr>) (clinic_apt 1 ''XH001'')"
proof -
  have s: "rs_success (confirmed (clinic_apt 1 ''XH001'')
             \<lparr>d_id = 1, d_name = ''Dr. Rahman'', d_specialty = ''Cardiology''\<rparr>)"
    by (simp add: confirmed_def)
  have l: "list_all (\<lambda>b. get_doctor clinic (a_doctor_id b) \<noteq> None) (appointments clinic)"
    by (simp add: clinic_def)
  have e: "appointments clinic = []" by (simp add: clinic_def)
  show ?thesis
    using booked_appointment_listed [OF clinic_book s l]
    by (simp add: confirmed_def clinic_request_def e)
qed

text \<open>
  C10 as stated fails: John Smith already has an appointment on 2024-01-09; his new
  booking is for 2024-01-02, and the list of his appointments, ordered by appointment
  date, shows the old appointment (id 1) first and the one just booked (id 2) second.
\<close>

theorem booked_appointment_not_first:
  "map_option a_id
     (rs_appointment (snd (book_appointment 738886 clinic_returning
                             (clinic_request ''I have chest pain'' None None)))) = Some 2
   \<and> map v_id
       (get_patient_appointments
          (fst (book_appointment 738886 clinic_returning
                  (clinic_request ''I have chest pain'' None None)))
          ''+8801234567890'') = [1, 2]"
  unfolding clinic_returning_book
  by (simp add: confirmed_def clinic_apt_def get_patient_appointments_def get_doctor_def
        clinic_returning_def clinic_def)


section \<open>Properties of the symptom matcher\<close>




lemma set_first_occurrences [simp]: "set (first_occurrences xs) = set xs"
  by (simp add: first_occurrences_def)

lemma distinct_first_occurrences [simp]: "distinct (first_occurrences xs)"
  by (simp add: first_occurrences_def)













section \<open>Properties of the serial numbers\<close>

lemma digit_char [simp]:
  assumes "d < 10"
  shows "is_digit (char_of (48 + d))" "digit_val (char_of (48 + d)) = d"
  using assms by (simp_all add: is_digit_def digit_val_def)

















section \<open>Serial numbers over a run of bookings\<close>






















section \<open>The slots as they are reported\<close>

lemma availability_reported_eq:
  "map reported (get_doctor_availability st doctor_id start_date days) =
     map to_minute (map slot_datetime (get_doctor_availability st doctor_id start_date days))"
proof -
  have "reported s = to_minute (slot_datetime s)"
    if "s \<in> set (get_doctor_availability st doctor_id start_date days)" for s
  proof -
    from availability_slot_fields [OF that] obtain doctor where
      "s = make_slot doctor doctor_id (fst (slot_datetime s)) (snd (slot_datetime s))" by blast
    then have "reported s =
        reported (make_slot doctor doctor_id (fst (slot_datetime s)) (snd (slot_datetime s)))"
      by simp
    then show ?thesis by (simp add: make_slot_def reported_def to_minute_def)
  qed
  then show ?thesis by (simp add: comp_def)
qed

lemma availability_doctor_id:
  assumes "s \<in> set (get_doctor_availability st doctor_id start_date days)"
  shows "slot_doctor_id s = doctor_id"
proof -
  from availability_slot_fields [OF assms] obtain doctor where
    "s = make_slot doctor doctor_id (fst (slot_datetime s)) (snd (slot_datetime s))" by blast
  then have "slot_doctor_id s =
      slot_doctor_id (make_slot doctor doctor_id (fst (slot_datetime s)) (snd (slot_datetime s)))"
    by simp
  then show ?thesis by (simp add: make_slot_def)
qed

lemma half_hour_rule_times: "sorted_wrt (\<lambda>x y. x + 1800 \<le> y) (rule_times s e)"
proof -
  have "sorted_wrt (\<lambda>x y. s + 1800 * x + 1800 \<le> s + 1800 * y) [0 ..< (e - s + 1799) div 1800]"
    by (rule sorted_wrt_mono_rel [OF _ sorted_wrt_upt]) simp
  then show ?thesis unfolding rule_times_def sorted_wrt_map .
qed

lemma half_hour_day: "sorted_wrt half_hour_less (spec_day_slots st i d)"
proof (cases "find (\<lambda>r. sch_is_active r \<and> sch_day_of_week r = sunday_weekday d) (doctor_schedules st i)")
  case None
  then show ?thesis by (simp add: spec_day_slots_def)
next
  case (Some r)
  have "sorted_wrt (\<lambda>x y. x + 1800 \<le> y)
          (filter (slot_open st i d) (rule_times (sch_start_time r) (sch_end_time r)))"
    by (rule sorted_wrt_filter) (rule half_hour_rule_times)
  then show ?thesis
    using Some by (simp add: spec_day_slots_def sorted_wrt_map half_hour_less_def)
qed

lemma half_hour_days:
  "sorted_wrt half_hour_less (concat (map (spec_day_slots st i) [a .. b]))"
proof (induction a b rule: upto.induct)
  case (1 a b)
  show ?case
  proof (cases "a \<le> b")
    case False
    then show ?thesis by simp
  next
    case True
    have cross: "half_hour_less x y"
      if "x \<in> set (spec_day_slots st i a)"
        and "y \<in> set (concat (map (spec_day_slots st i) [a + 1 .. b]))" for x y
    proof -
      have "fst x = a" using that(1) by (rule fst_spec_day_slots)
      moreover have "a + 1 \<le> fst y" using set_concat_days [OF that(2)] by simp
      ultimately show ?thesis by (simp add: half_hour_less_def)
    qed
    have "sorted_wrt half_hour_less
            (spec_day_slots st i a @ concat (map (spec_day_slots st i) [a + 1 .. b]))"
      unfolding sorted_wrt_append
      using half_hour_day [of st i a] 1 [OF True] cross by blast
    then show ?thesis by (simp add: upto_rec1 [OF True])
  qed
qed

lemma hhmm_less:
  assumes "t + 1800 \<le> u"
  shows "hhmm t < hhmm u"
proof -
  have "(t + 30 * 60) div 60 \<le> u div 60" using assms by (intro div_le_mono) simp
  then have "t div 60 + 30 \<le> u div 60" by simp
  then show ?thesis by (simp add: hhmm_def)
qed

lemma to_minute_less: "half_hour_less a b \<Longrightarrow> datetime_less (to_minute a) (to_minute b)"
  by (auto simp: half_hour_less_def datetime_less_def to_minute_def hhmm_less)

lemma sorted_to_minute:
  "sorted_wrt datetime_less (map to_minute (spec_availability st i a n))"
proof -
  have "sorted_wrt (\<lambda>x y. datetime_less (to_minute x) (to_minute y))
          (concat (map (spec_day_slots st i) [a .. a + n]))"
    by (rule sorted_wrt_mono_rel [OF _ half_hour_days]) (rule to_minute_less)
  then show ?thesis unfolding spec_availability_def sorted_wrt_map .
qed

lemma hhmm_whole_minute:
  assumes "s mod 60 = 0"
  shows "hhmm (s + 1800 * k) = s + 1800 * k"
proof -
  have "60 dvd s" using assms by (simp add: mod_eq_0_iff_dvd)
  moreover have "(60::nat) dvd 1800 * k" by (rule dvd_mult2) simp
  ultimately have "60 dvd s + 1800 * k" by (rule dvd_add)
  then show ?thesis unfolding hhmm_def by (rule dvd_div_mult_self)
qed

lemma spec_day_slots_time:
  assumes "x \<in> set (spec_day_slots st i d)"
  shows "fst x = d \<and> slot_open st i d (snd x)
         \<and> (\<exists>r \<in> set (doctor_schedules st i). sch_is_active r
              \<and> (\<exists>k. snd x = sch_start_time r + 1800 * k))"
proof (cases "find (\<lambda>r. sch_is_active r \<and> sch_day_of_week r = sunday_weekday d) (doctor_schedules st i)")
  case None
  with assms show ?thesis by (simp add: spec_day_slots_def)
next
  case (Some r)
  then have r: "r \<in> set (doctor_schedules st i)" "sch_is_active r"
    by (auto simp: find_Some_iff)
  from assms Some have "fst x = d" "slot_open st i d (snd x)"
    "snd x \<in> set (rule_times (sch_start_time r) (sch_end_time r))"
    by (auto simp: spec_day_slots_def)
  then show ?thesis using r by (auto simp: rule_times_def)
qed

lemma whole_minute_slots:
  assumes "whole_minute_rules st i" and "x \<in> set (spec_availability st i a n)"
  shows "to_minute x = x" "slot_open st i (fst x) (snd x)"
proof -
  from assms(2) obtain d where "x \<in> set (spec_day_slots st i d)"
    by (auto simp: spec_availability_def)
  from spec_day_slots_time [OF this] obtain r k where
    x: "fst x = d" "slot_open st i d (snd x)"
    and r: "r \<in> set (doctor_schedules st i)" "sch_is_active r"
    and k: "snd x = sch_start_time r + 1800 * k" by blast
  from assms(1) r have "sch_start_time r mod 60 = 0"
    by (simp add: whole_minute_rules_def list_all_iff)
  then have "hhmm (snd x) = snd x" unfolding k by (rule hhmm_whole_minute)
  then show "to_minute x = x" by (simp add: to_minute_def)
  show "slot_open st i (fst x) (snd x)" using x by simp
qed

text \<open>
  C2, as the code has it. For every doctor id, start date and number of days, the
  availability generator enumerates exactly the date-times of the specification's rule,
  in that order: for each date from the start date to the start date plus the number of
  days inclusive, the first active weekly rule of the doctor whose weekday (0 = Sunday) is
  that of the date, its times in 30-minute steps from start (inclusive) to end
  (exclusive), keeping a time iff no scheduled appointment and no blocked time slot is at
  the doctor, date and that time; an id that names no doctor has no slots. The date and
  time each slot is reported with are that date and that time cut to the minute, and the
  reported list is strictly ascending by date, then time. When every active rule of the
  doctor starts on a whole minute, the reported dates and times are exactly those of the
  specification's rule and no reported slot has a scheduled appointment or a blocked time
  slot at its doctor, date and time. Every slot carries the doctor id asked for. For
  Dr. A with one active Monday rule 18:00 to 20:00 and no bookings, the slots reported for
  that Monday are exactly 18:00, 18:30, 19:00, 19:30.
\<close>

theorem availability_reported:
  "map slot_datetime (get_doctor_availability st doctor_id start_date num_days) =
     (if get_doctor st doctor_id = None then []
      else spec_availability st doctor_id start_date num_days)
   \<and> map reported (get_doctor_availability st doctor_id start_date num_days) =
     (if get_doctor st doctor_id = None then []
      else map to_minute (spec_availability st doctor_id start_date num_days))
   \<and> sorted_wrt datetime_less
        (map reported (get_doctor_availability st doctor_id start_date num_days))
   \<and> list_all (\<lambda>s. slot_doctor_id s = doctor_id)
        (get_doctor_availability st doctor_id start_date num_days)
   \<and> (whole_minute_rules st doctor_id \<longrightarrow>
        map reported (get_doctor_availability st doctor_id start_date num_days) =
          (if get_doctor st doctor_id = None then []
           else spec_availability st doctor_id start_date num_days)
        \<and> list_all (\<lambda>s. slot_open st doctor_id (slot_date s) (slot_time s))
            (get_doctor_availability st doctor_id start_date num_days))
   \<and> map reported (get_doctor_availability dr_a_store 1 738886 0)
        = [(738886, 64800), (738886, 66600), (738886, 68400), (738886, 70200)]"
proof -
  let ?slots = "get_doctor_availability st doctor_id start_date num_days"
  let ?spec = "spec_availability st doctor_id start_date num_days"
  have eq: "map slot_datetime ?slots = (if get_doctor st doctor_id = None then [] else ?spec)"
    by (rule availability_datetimes)
  have rep: "map reported ?slots =
      (if get_doctor st doctor_id = None then [] else map to_minute ?spec)"
    unfolding availability_reported_eq eq by simp
  have srt: "sorted_wrt datetime_less (map reported ?slots)"
    unfolding rep by (simp add: sorted_to_minute)
  have ids: "list_all (\<lambda>s. slot_doctor_id s = doctor_id) ?slots"
    unfolding list_all_iff using availability_doctor_id by blast
  have whole: "map reported ?slots = (if get_doctor st doctor_id = None then [] else ?spec)
        \<and> list_all (\<lambda>s. slot_open st doctor_id (slot_date s) (slot_time s)) ?slots"
    if w: "whole_minute_rules st doctor_id"
  proof
    have same: "map to_minute ?spec = ?spec"
      using whole_minute_slots(1) [OF w] by (simp add: map_idI)
    show r: "map reported ?slots = (if get_doctor st doctor_id = None then [] else ?spec)"
      unfolding rep same ..
    show "list_all (\<lambda>s. slot_open st doctor_id (slot_date s) (slot_time s)) ?slots"
      unfolding list_all_iff
    proof
      fix s assume s: "s \<in> set ?slots"
      then have "reported s \<in> set (map reported ?slots)" by simp
      then have "reported s \<in> set ?spec" unfolding r by (simp split: if_splits)
      from whole_minute_slots(2) [OF w this]
      show "slot_open st doctor_id (slot_date s) (slot_time s)" by (simp add: reported_def)
    qed
  qed
  have ex: "map reported (get_doctor_availability dr_a_store 1 738886 0)
        = [(738886, 64800), (738886, 66600), (738886, 68400), (738886, 70200)]"
    unfolding availability_reported_eq example_monday by (simp add: to_minute_def hhmm_def)
  from eq rep srt ids whole ex show ?thesis by blast
qed

theorem availability_reported_witness:
  "whole_minute_rules dr_a_store 1
   \<and> map reported (get_doctor_availability dr_a_store 1 738886 1) =
       [(738886, 64800), (738886, 66600), (738886, 68400), (738886, 70200)]
   \<and> list_all (\<lambda>s. slot_open dr_a_store 1 (slot_date s) (slot_time s))
       (get_doctor_availability dr_a_store 1 738886 1)"
proof -
  have spec: "spec_availability dr_a_store 1 738886 1 =
     [(738886, 64800), (738886, 66600), (738886, 68400), (738886, 70200)]"
    by (simp add: spec_availability_def spec_day_slots_def dr_a_store_def upto_rec1
        doctor_schedules_def sunday_weekday_def rule_times_rec slot_open_def)
  have doc: "get_doctor dr_a_store 1 \<noteq> None"
    by (simp add: get_doctor_def dr_a_store_def)
  have w: "whole_minute_rules dr_a_store 1"
    by (simp add: whole_minute_rules_def doctor_schedules_def dr_a_store_def)
  from availability_reported [of dr_a_store 1 738886 1] w
  have "map reported (get_doctor_availability dr_a_store 1 738886 1) =
          (if get_doctor dr_a_store 1 = None then [] else spec_availability dr_a_store 1 738886 1)
        \<and> list_all (\<lambda>s. slot_open dr_a_store 1 (slot_date s) (slot_time s))
            (get_doctor_availability dr_a_store 1 738886 1)"
    by blast
  with w doc show ?thesis unfolding spec by simp
qed

text \<open>
  C2 as stated fails when a rule starts off the minute. For Dr. A with the Monday rule
  18:00:30 to 20:00 and a scheduled appointment on that Monday at 18:00:00, the slots
  reported for the Monday are 18:00, 18:30, 19:00, 19:30, while the rule of the
  specification gives 18:00:30, 18:30:30, 19:00:30, 19:30:30; and the slot reported at
  18:00 has a scheduled appointment at its doctor, date and time.
\<close>

theorem availability_seconds_counterexample:
  "map reported (get_doctor_availability sec_store 1 738886 0) =
     [(738886, 64800), (738886, 66600), (738886, 68400), (738886, 70200)]
   \<and> spec_availability sec_store 1 738886 0 =
     [(738886, 64830), (738886, 66630), (738886, 68430), (738886, 70230)]
   \<and> \<not> slot_open sec_store 1 738886 64800"
proof -
  have spec: "spec_availability sec_store 1 738886 0 =
     [(738886, 64830), (738886, 66630), (738886, 68430), (738886, 70230)]"
    by (simp add: spec_availability_def spec_day_slots_def sec_store_def dr_a_store_def
        doctor_schedules_def sunday_weekday_def rule_times_rec slot_open_def)
  have doc: "get_doctor sec_store 1 \<noteq> None"
    by (simp add: get_doctor_def sec_store_def dr_a_store_def)
  have "map slot_datetime (get_doctor_availability sec_store 1 738886 0) =
     [(738886, 64830), (738886, 66630), (738886, 68430), (738886, 70230)]"
    using doc by (simp add: availability_datetimes spec)
  then have rep: "map reported (get_doctor_availability sec_store 1 738886 0) =
     [(738886, 64800), (738886, 66600), (738886, 68400), (738886, 70200)]"
    unfolding availability_reported_eq by (simp add: to_minute_def hhmm_def)
  have "\<not> slot_open sec_store 1 738886 64800"
    by (simp add: slot_open_def sec_store_def dr_a_store_def)
  with rep spec show ?thesis by blast
qed


end
